theory Spec2Isabelle
  imports Complex_Main "HOL-Library.Word" "HOL-Library.Sublist" "HOL-Library.AList"
begin

section \<open>Strings\<close>

text \<open>
  A JavaScript string is a sequence of UTF-16 code units; \<open>length\<close> counts code units,
  as \<^verbatim>\<open>.length\<close> does. String literals of the program are ASCII and are written with
  \<open>lit\<close>.
\<close>

type_synonym code_unit = "16 word"
type_synonym jstring = "code_unit list"

definition lit :: "string \<Rightarrow> jstring" where
  "lit s = map of_char s"

text \<open>
  The code units that \<^verbatim>\<open>String.prototype.trim\<close> strips and that \<^verbatim>\<open>\s\<close> matches in a
  regular expression: ECMAScript's WhiteSpace and LineTerminator.
\<close>

definition is_white :: "code_unit \<Rightarrow> bool" where
  "is_white c \<longleftrightarrow>
     c = 0x9 \<or> c = 0xA \<or> c = 0xB \<or> c = 0xC \<or> c = 0xD \<or> c = 0x20 \<or> c = 0xA0 \<or>
     c = 0x1680 \<or> (0x2000 \<le> c \<and> c \<le> 0x200A) \<or> c = 0x2028 \<or> c = 0x2029 \<or>
     c = 0x202F \<or> c = 0x205F \<or> c = 0x3000 \<or> c = 0xFEFF"

definition trim :: "jstring \<Rightarrow> jstring" where
  "trim s = rev (dropWhile is_white (rev (dropWhile is_white s)))"

section \<open>Numbers\<close>

text \<open>
  A JavaScript number is an IEEE double: a finite value, one of the two infinities or
  NaN. The two zeros are one value here; they are equal under \<^verbatim>\<open>===\<close> and both falsy, and
  a quotient by zero has the sign it has for the positive zero. An
  arithmetic operation on finite values rounds its exact result to a double, or
  overflows to the infinity of its sign; the rounding is a parameter of type
  \<open>real \<Rightarrow> rounded\<close>.
\<close>

datatype number = Num real | PosInf | NegInf | NaN

datatype rounded = Finite real | Overflow

definition round_to :: "(real \<Rightarrow> rounded) \<Rightarrow> real \<Rightarrow> number" where
  "round_to rnd x =
     (case rnd x of Finite y \<Rightarrow> Num y | Overflow \<Rightarrow> if 0 < x then PosInf else NegInf)"

text \<open>The operators \<^verbatim>\<open>+\<close>, \<^verbatim>\<open>/\<close> and \<^verbatim>\<open>*\<close> on numbers.\<close>

fun num_add :: "(real \<Rightarrow> rounded) \<Rightarrow> number \<Rightarrow> number \<Rightarrow> number" where
  "num_add rnd NaN y = NaN"
| "num_add rnd x NaN = NaN"
| "num_add rnd PosInf NegInf = NaN"
| "num_add rnd NegInf PosInf = NaN"
| "num_add rnd PosInf y = PosInf"
| "num_add rnd x PosInf = PosInf"
| "num_add rnd NegInf y = NegInf"
| "num_add rnd x NegInf = NegInf"
| "num_add rnd (Num a) (Num b) = round_to rnd (a + b)"

fun num_div :: "(real \<Rightarrow> rounded) \<Rightarrow> number \<Rightarrow> number \<Rightarrow> number" where
  "num_div rnd NaN y = NaN"
| "num_div rnd x NaN = NaN"
| "num_div rnd PosInf (Num b) = (if b < 0 then NegInf else PosInf)"
| "num_div rnd NegInf (Num b) = (if b < 0 then PosInf else NegInf)"
| "num_div rnd (Num a) PosInf = Num 0"
| "num_div rnd (Num a) NegInf = Num 0"
| "num_div rnd (Num a) (Num b) =
     (if b = 0 then (if a = 0 then NaN else if 0 < a then PosInf else NegInf)
      else round_to rnd (a / b))"
| "num_div rnd x y = NaN"

fun num_mul :: "(real \<Rightarrow> rounded) \<Rightarrow> number \<Rightarrow> number \<Rightarrow> number" where
  "num_mul rnd NaN y = NaN"
| "num_mul rnd x NaN = NaN"
| "num_mul rnd PosInf (Num b) = (if b = 0 then NaN else if b < 0 then NegInf else PosInf)"
| "num_mul rnd NegInf (Num b) = (if b = 0 then NaN else if b < 0 then PosInf else NegInf)"
| "num_mul rnd (Num a) PosInf = (if a = 0 then NaN else if a < 0 then NegInf else PosInf)"
| "num_mul rnd (Num a) NegInf = (if a = 0 then NaN else if a < 0 then PosInf else NegInf)"
| "num_mul rnd PosInf PosInf = PosInf"
| "num_mul rnd NegInf NegInf = PosInf"
| "num_mul rnd PosInf NegInf = NegInf"
| "num_mul rnd NegInf PosInf = NegInf"
| "num_mul rnd (Num a) (Num b) = round_to rnd (a * b)"

text \<open>The comparison \<^verbatim>\<open>x >= y\<close> of two numbers; it is false when either is NaN.\<close>

fun num_ge :: "number \<Rightarrow> number \<Rightarrow> bool" where
  "num_ge NaN y = False"
| "num_ge x NaN = False"
| "num_ge PosInf y = True"
| "num_ge x NegInf = True"
| "num_ge (Num a) (Num b) = (b \<le> a)"
| "num_ge x y = False"

text \<open>
  A real with the sign of \<^verbatim>\<open>y - x\<close>, and 0 where \<^verbatim>\<open>y - x\<close> is NaN. A comparator's result
  is used by its sign only, and the difference of two doubles has the sign of their
  exact difference.
\<close>

fun num_diff_sign :: "number \<Rightarrow> number \<Rightarrow> real" where
  "num_diff_sign NaN x = 0"
| "num_diff_sign y NaN = 0"
| "num_diff_sign PosInf PosInf = 0"
| "num_diff_sign NegInf NegInf = 0"
| "num_diff_sign PosInf x = 1"
| "num_diff_sign y NegInf = 1"
| "num_diff_sign NegInf x = - 1"
| "num_diff_sign y PosInf = - 1"
| "num_diff_sign (Num y) (Num x) = y - x"

section \<open>JSON values\<close>

text \<open>
  What \<^verbatim>\<open>JSON.parse\<close> returns and what the program builds from it. An object is the list
  of its properties, each key once, in the order in which JavaScript enumerates them:
  the keys that are array indices first, in ascending order, then the other keys in the
  order they were added. \<^verbatim>\<open>JSON.parse\<close> returns an infinity for a number too large for a
  double. JavaScript's \<^verbatim>\<open>undefined\<close> is \<open>None\<close> of \<open>json option\<close>.
\<close>

datatype json =
    JNull
  | JBool bool
  | JNumber number
  | JStr jstring
  | JArr "json list"
  | JObj "(jstring \<times> json) list"

text \<open>A finite number.\<close>

abbreviation JNum :: "real \<Rightarrow> json" where
  "JNum x \<equiv> JNumber (Num x)"

text \<open>Truthiness, as \<^verbatim>\<open>!x\<close>, \<^verbatim>\<open>x ? a : b\<close> and \<^verbatim>\<open>x || y\<close> test it.\<close>

fun truthy :: "json \<Rightarrow> bool" where
  "truthy JNull = False"
| "truthy (JBool b) = b"
| "truthy (JNumber n) = (n \<noteq> Num 0 \<and> n \<noteq> NaN)"
| "truthy (JStr s) = (s \<noteq> [])"
| "truthy (JArr xs) = True"
| "truthy (JObj kvs) = True"

fun truthy_opt :: "json option \<Rightarrow> bool" where
  "truthy_opt None = False"
| "truthy_opt (Some v) = truthy v"

text \<open>
  A property read \<^verbatim>\<open>v.k\<close> for the property names this program reads from parsed JSON
  (\<^verbatim>\<open>variations\<close>, \<^verbatim>\<open>content\<close>, \<^verbatim>\<open>overall\<close>, ...): none of them is inherited from a
  prototype, so the read finds an own property of an object or is \<^verbatim>\<open>undefined\<close>.
  Reading a property of \<^verbatim>\<open>null\<close> throws a TypeError: \<open>None\<close>.
\<close>

fun get :: "json \<Rightarrow> jstring \<Rightarrow> json option option" where
  "get JNull k = None"
| "get (JObj kvs) k = Some (map_of kvs k)"
| "get v k = Some None"

text \<open>The same read where the value is known not to be \<^verbatim>\<open>null\<close>.\<close>

fun field :: "json \<Rightarrow> jstring \<Rightarrow> json option" where
  "field (JObj kvs) k = map_of kvs k"
| "field v k = None"

text \<open>
  An object literal as it is serialised by \<^verbatim>\<open>JSON.stringify\<close>: a property whose value
  is \<^verbatim>\<open>undefined\<close> is left out.
\<close>

definition obj :: "(string \<times> json option) list \<Rightarrow> json" where
  "obj kvs = JObj (List.map_filter (\<lambda>(k, v). map_option (\<lambda>w. (lit k, w)) v) kvs)"

text \<open>
  A value as the client reads it from a response: \<^verbatim>\<open>NextResponse.json\<close> writes the body
  with \<^verbatim>\<open>JSON.stringify\<close>, which writes a number that is not finite as \<^verbatim>\<open>null\<close>.
\<close>

primrec sent :: "json \<Rightarrow> json" where
  "sent JNull = JNull"
| "sent (JBool b) = JBool b"
| "sent (JNumber n) = (case n of Num x \<Rightarrow> JNumber n | _ \<Rightarrow> JNull)"
| "sent (JStr s) = JStr s"
| "sent (JArr xs) = JArr (map sent xs)"
| "sent (JObj kvs) = JObj (map (map_prod id sent) kvs)"

section \<open>The remote model and the language runtime\<close>

text \<open>
  A thrown exception is \<open>None\<close> of an option type: every route catches whatever is
  thrown in one \<^verbatim>\<open>catch\<close> block and does not look at it.

  Every request to the remote model is recorded by the function that issued it and the
  values its prompt template is filled from. The prompt text itself reaches only the
  remote model, whose reply is a parameter, so the templates are not transcribed.
\<close>

datatype content_type = Short | Long | Article

record pillar =
  name :: jstring
  description :: jstring

record topic_pillar = pillar +
  example_topics :: "jstring list"

record ExtractedDeck =
  fileName :: jstring
  slideCount :: nat
  extractedText :: jstring

datatype call =
    AnalyzeVoice "jstring list"
  | GenerateContent jstring content_type number json "jstring list" "jstring list"
  | ScoreVoiceMatch "json option" json
  | DiscoverPillars "jstring list"
  | SuggestTopics "topic_pillar list" jstring "jstring list" number
  | ScoreTrendRelevance jstring jstring "pillar list" jstring
  | AnalyzeDeck ExtractedDeck
  | AnalyzeMultipleDecks "json list"

datatype reply = Fails | Replies jstring

text \<open>
  The parameters of a run:
  \<^item> \<open>JSON_parse\<close>: the runtime's \<^verbatim>\<open>JSON.parse\<close>, \<open>None\<close> where it throws a SyntaxError;
  \<^item> \<open>model\<close>: the outcome of the \<open>k\<close>-th call of \<^verbatim>\<open>anthropic.messages.create\<close>
    (calls counted from 0 in the order they are issued): the call is rejected, or it
    returns a text (the empty text when the response has no text block);
  \<^item> \<open>clock\<close>: the reading of \<^verbatim>\<open>Date.now()\<close> after \<open>k\<close> model calls have been issued;
  \<^item> \<open>now_iso\<close>: \<^verbatim>\<open>new Date().toISOString()\<close>;
  \<^item> \<open>ToNumber\<close>: the runtime's numeric conversion of a string, an array or an object
    (\<open>None\<close>: it throws);
  \<^item> \<open>voice_context_builds\<close>, \<open>score_prompt_builds\<close>, \<open>narrative_summary_builds\<close>:
    whether filling the prompt template of \<^verbatim>\<open>buildVoiceContext\<close>, \<^verbatim>\<open>scoreVoiceMatch\<close>
    and \<^verbatim>\<open>analyzeMultipleDecks\<close> from a value the model returned completes; it throws
    a TypeError when the value lacks a field that the template reads into;
  \<^item> \<open>parsePastedDeckText\<close>, \<open>enrichPillarsWithDecks\<close>, \<open>enrichedSummary\<close>: the deck
    helpers of \<^verbatim>\<open>lib/decks/extractor.ts\<close> and \<^verbatim>\<open>lib/ai/deck-analyzer.ts\<close> and the summary
    template of the pillars route, whose results reach a response only as its data.
\<close>

record env =
  JSON_parse :: "jstring \<Rightarrow> json option"
  model :: "nat \<Rightarrow> reply"
  clock :: "nat \<Rightarrow> real"
  now_iso :: jstring
  ToNumber :: "json \<Rightarrow> number option"
  voice_context_builds :: "json \<Rightarrow> bool"
  score_prompt_builds :: "json option \<Rightarrow> json \<Rightarrow> bool"
  narrative_summary_builds :: "json list \<Rightarrow> bool"
  parsePastedDeckText :: "jstring \<Rightarrow> jstring \<Rightarrow> ExtractedDeck"
  enrichPillarsWithDecks :: "json option \<Rightarrow> json \<Rightarrow> json option"
  enrichedSummary :: "json \<Rightarrow> json \<Rightarrow> jstring option"

text \<open>
  A computation takes the list of calls issued so far and returns its result with the
  list extended.
\<close>

type_synonym 'a io = "call list \<Rightarrow> 'a option \<times> call list"

section \<open>src/lib/ai/claude-client.ts\<close>

text \<open>
  The module that \<^verbatim>\<open>./claude-client\<close> names in the imports. Its text is the last part of
  the file \<^verbatim>\<open>src/lib/ai/voice-analyzer.ts\<close>, after the voice analyzer and the pillar
  discovery.
\<close>

definition generateText :: "env \<Rightarrow> call \<Rightarrow> jstring io" where
  "generateText e c cs =
     (case model e (length cs) of
        Fails \<Rightarrow> (None, cs @ [c])
      | Replies t \<Rightarrow> (Some t, cs @ [c]))"

text \<open>
  The first occurrence of a pattern in a string: the part before it and the part after
  it.
\<close>

fun split_first :: "'a list \<Rightarrow> 'a list \<Rightarrow> ('a list \<times> 'a list) option" where
  "split_first p [] = (if p = [] then Some ([], []) else None)"
| "split_first p (x # xs) =
     (if prefix p (x # xs) then Some ([], drop (length p) (x # xs))
      else map_option (\<lambda>(a, b). (x # a, b)) (split_first p xs))"

definition fence :: jstring where
  "fence = lit ''```''"

text \<open>
  \<^verbatim>\<open>text.match(/```(?:json)?\s*([\s\S]*?)```/)\<close>: group 1 of the match, if there is one.
  The match starts at the first \<^verbatim>\<open>```\<close> of the text. The optional \<^verbatim>\<open>json\<close> and the
  white space after it are taken greedily, the group lazily up to the next \<^verbatim>\<open>```\<close>.
  Backtracking into the greedy parts cannot find another closing fence, because the
  code units given back are letters of \<^verbatim>\<open>json\<close> or white space, and a start further to
  the right has no closing fence when the first one has none.
\<close>

definition code_block :: "jstring \<Rightarrow> jstring option" where
  "code_block t =
     (case split_first fence t of
        None \<Rightarrow> None
      | Some (before, rest) \<Rightarrow>
          (let rest1 = (if prefix (lit ''json'') rest then drop 4 rest else rest);
               rest2 = dropWhile is_white rest1
           in map_option fst (split_first fence rest2)))"

text \<open>
  The two \<^verbatim>\<open>try\<close> blocks of \<^verbatim>\<open>generateJSON\<close>, on the text the model returned. The
  result \<^verbatim>\<open>null\<close> is \<open>JNull\<close>, as is a parsed \<^verbatim>\<open>null\<close>.
\<close>

definition parse_reply :: "env \<Rightarrow> jstring \<Rightarrow> json" where
  "parse_reply e t =
     (case JSON_parse e t of
        Some v \<Rightarrow> v
      | None \<Rightarrow>
          (case code_block t of
             Some c \<Rightarrow> (case JSON_parse e (trim c) of Some v \<Rightarrow> v | None \<Rightarrow> JNull)
           | None \<Rightarrow> JNull))"

definition generateJSON :: "env \<Rightarrow> call \<Rightarrow> json io" where
  "generateJSON e c cs =
     (case generateText e c cs of
        (None, cs') \<Rightarrow> (None, cs')
      | (Some t, cs') \<Rightarrow> (Some (parse_reply e t), cs'))"

section \<open>src/lib/ai/voice-analyzer.ts\<close>

definition analyzeVoice :: "env \<Rightarrow> jstring list \<Rightarrow> json io" where
  "analyzeVoice e posts cs =
     (if length posts = 0 then (Some JNull, cs)
      else generateJSON e (AnalyzeVoice posts) cs)"

section \<open>src/lib/ai/content-generator.ts\<close>

record GenerationInput =
  topic :: jstring
  contentType :: content_type
  creativityLevel :: number
  voiceProfile :: json
  samplePosts :: "jstring list"
  trends :: "jstring list"

record GenerationOutput =
  variations :: "json list"
  generationTimeMs :: real

text \<open>The value \<^verbatim>\<open>{ overall, breakdown: { structure, tone, vocabulary } }\<close>.\<close>

record score =
  sc_overall :: "json option"
  sc_structure :: "json option"
  sc_tone :: "json option"
  sc_vocabulary :: "json option"

definition fixed_score :: "real \<Rightarrow> score" where
  "fixed_score n =
     \<lparr>sc_overall = Some (JNum n), sc_structure = Some (JNum n), sc_tone = Some (JNum n),
      sc_vocabulary = Some (JNum n)\<rparr>"

text \<open>
  \<^verbatim>\<open>{ overall: result.overall, breakdown: { structure: result.structure, tone: result.tone,
  vocabulary: result.vocabulary } }\<close>, for a truthy \<open>result\<close>.
\<close>

definition score_from :: "json \<Rightarrow> score" where
  "score_from result =
     \<lparr>sc_overall = field result (lit ''overall''),
      sc_structure = field result (lit ''structure''),
      sc_tone = field result (lit ''tone''),
      sc_vocabulary = field result (lit ''vocabulary'')\<rparr>"

text \<open>What \<open>scoreVoiceMatch\<close> returns for the value that \<open>generateJSON\<close> gave it.\<close>

definition reply_score :: "json \<Rightarrow> score" where
  "reply_score result = (if \<not> truthy result then fixed_score 70 else score_from result)"

definition scoreVoiceMatch :: "env \<Rightarrow> json option \<Rightarrow> json \<Rightarrow> score io" where
  "scoreVoiceMatch e content vp cs =
     (if \<not> score_prompt_builds e content vp then (None, cs)
      else
        (case generateJSON e (ScoreVoiceMatch content vp) cs of
           (None, cs') \<Rightarrow> (None, cs')
         | (Some result, cs') \<Rightarrow> (Some (reply_score result), cs')))"

text \<open>The object that the callback of \<^verbatim>\<open>result.variations.map\<close> returns for \<open>v\<close>.\<close>

definition scored :: "json \<Rightarrow> score \<Rightarrow> json" where
  "scored v sc =
     obj [(''id'', field v (lit ''id'')),
          (''content'', field v (lit ''content'')),
          (''voice_match_score'', sc_overall sc),
          (''voice_match_breakdown'',
             Some (obj [(''structure'', sc_structure sc), (''tone'', sc_tone sc),
                        (''vocabulary'', sc_vocabulary sc)]))]"

text \<open>
  The callback itself. With a voice profile its first property read is \<^verbatim>\<open>v.content\<close>,
  without one \<^verbatim>\<open>v.id\<close>; either throws when \<open>v\<close> is \<^verbatim>\<open>null\<close>.
\<close>

definition score_variation :: "env \<Rightarrow> json \<Rightarrow> json \<Rightarrow> json io" where
  "score_variation e vp v cs =
     (if truthy vp then
        (case get v (lit ''content'') of
           None \<Rightarrow> (None, cs)
         | Some content \<Rightarrow>
             (case scoreVoiceMatch e content vp cs of
                (None, cs') \<Rightarrow> (None, cs')
              | (Some sc, cs') \<Rightarrow> (Some (scored v sc), cs')))
      else
        (case get v (lit ''id'') of
           None \<Rightarrow> (None, cs)
         | Some i \<Rightarrow> (Some (scored v (fixed_score 75)), cs)))"

text \<open>
  \<^verbatim>\<open>Promise.all(result.variations.map(async (v) => ...))\<close>: every callback runs up to
  its model call before any reply is looked at, so the calls are issued for all
  elements, in order, also when one of them is rejected; the whole is rejected when
  one element is.
\<close>

fun score_all :: "env \<Rightarrow> json \<Rightarrow> json list \<Rightarrow> json list io" where
  "score_all e vp [] cs = (Some [], cs)"
| "score_all e vp (v # vs) cs =
     (case score_variation e vp v cs of
        (r, cs') \<Rightarrow>
          (case score_all e vp vs cs' of
             (rs, cs'') \<Rightarrow>
               ((case r of
                   None \<Rightarrow> None
                 | Some x \<Rightarrow> (case rs of None \<Rightarrow> None | Some xs \<Rightarrow> Some (x # xs))),
                cs'')))"

definition generateContent :: "env \<Rightarrow> GenerationInput \<Rightarrow> GenerationOutput io" where
  "generateContent e inp cs =
     (let startTime = clock e (length cs) in
      if truthy (voiceProfile inp) \<and> \<not> voice_context_builds e (voiceProfile inp)
      then (None, cs)
      else
        (case generateJSON e
                (GenerateContent (topic inp) (contentType inp) (creativityLevel inp)
                   (voiceProfile inp) (samplePosts inp) (trends inp)) cs of
           (None, cs') \<Rightarrow> (None, cs')
         | (Some result, cs') \<Rightarrow>
             (if \<not> truthy result \<or> \<not> truthy_opt (field result (lit ''variations''))
              then (None, cs')
              else
                (case field result (lit ''variations'') of
                   Some (JArr vs) \<Rightarrow>
                     (case score_all e (voiceProfile inp) vs cs' of
                        (None, cs'') \<Rightarrow> (None, cs'')
                      | (Some scoredVariations, cs'') \<Rightarrow>
                          (Some \<lparr>variations = scoredVariations,
                                 generationTimeMs = clock e (length cs'') - startTime\<rparr>,
                           cs''))
                 | _ \<Rightarrow> (None, cs')))))"

section \<open>src/lib/ai/pillar-discovery.ts\<close>

text \<open>
  The module that \<^verbatim>\<open>@/lib/ai/pillar-discovery\<close> names in the imports; its text is the
  second part of the file \<^verbatim>\<open>src/lib/ai/voice-analyzer.ts\<close>.
\<close>

definition discoverPillars :: "env \<Rightarrow> jstring list \<Rightarrow> json io" where
  "discoverPillars e posts cs =
     (if length posts < 3 then (Some JNull, cs)
      else generateJSON e (DiscoverPillars posts) cs)"


definition no_relevance :: json where
  "no_relevance =
     JObj [(lit ''relevanceScore'', JNum 0), (lit ''matchedPillars'', JArr []),
           (lit ''hasConflict'', JBool False), (lit ''conflictReason'', JNull),
           (lit ''suggestedAngle'', JNull)]"

definition scoreTrendRelevance ::
  "env \<Rightarrow> jstring \<Rightarrow> jstring \<Rightarrow> pillar list \<Rightarrow> jstring \<Rightarrow> json io" where
  "scoreTrendRelevance e trendTitle trendSummary pillars voiceSummary cs =
     (case generateJSON e (ScoreTrendRelevance trendTitle trendSummary pillars voiceSummary) cs of
        (None, cs') \<Rightarrow> (None, cs')
      | (Some result, cs') \<Rightarrow> (Some (if truthy result then result else no_relevance), cs'))"

section \<open>Object spread and numeric conversion\<close>

text \<open>The decimal digits of a number, as a template literal prints an array index.\<close>

function show_nat :: "nat \<Rightarrow> jstring" where
  "show_nat n =
     (if n < 10 then [of_nat (48 + n)]
      else show_nat (n div 10) @ [of_nat (48 + n mod 10)])"
  by pat_completeness auto
termination
  by (relation "measure (\<lambda>n. n)") auto

text \<open>
  The own enumerable properties that \<^verbatim>\<open>{ ...v }\<close> copies: those of an object, the
  indices of an array or of a string, none of a number, a boolean or \<^verbatim>\<open>null\<close>.
\<close>

fun own_props :: "json \<Rightarrow> (jstring \<times> json) list" where
  "own_props (JObj kvs) = kvs"
| "own_props (JArr xs) = map (\<lambda>i. (show_nat i, xs ! i)) [0..<length xs]"
| "own_props (JStr s) = map (\<lambda>i. (show_nat i, JStr [s ! i])) [0..<length s]"
| "own_props v = []"

text \<open>
  A key that is an array index: the decimal digits, without a leading zero, of a number
  below \<^verbatim>\<open>2 ** 32 - 1\<close>.
\<close>

definition is_digit :: "code_unit \<Rightarrow> bool" where
  "is_digit c \<longleftrightarrow> 0x30 \<le> c \<and> c \<le> 0x39"

definition digits_value :: "jstring \<Rightarrow> int" where
  "digits_value k = foldl (\<lambda>n c. 10 * n + (uint c - 48)) 0 k"

definition array_index :: "jstring \<Rightarrow> int option" where
  "array_index k =
     (if k \<noteq> [] \<and> list_all is_digit k \<and> (hd k \<noteq> 0x30 \<or> length k = 1) \<and>
         digits_value k < 2 ^ 32 - 1
      then Some (digits_value k) else None)"

text \<open>
  A new property whose key is the array index \<open>n\<close> takes its place among the array
  indices: before the first key that is a larger index or no index.
\<close>

fun add_index :: "int \<Rightarrow> jstring \<Rightarrow> json \<Rightarrow> (jstring \<times> json) list \<Rightarrow> (jstring \<times> json) list" where
  "add_index n k v [] = [(k, v)]"
| "add_index n k v ((k', v') # kvs) =
     (case array_index k' of
        Some m \<Rightarrow> if m < n then (k', v') # add_index n k v kvs else (k, v) # (k', v') # kvs
      | None \<Rightarrow> (k, v) # (k', v') # kvs)"

text \<open>
  Setting one property: a key that is there keeps its place and takes the new value; a
  new key is added, an array index among the array indices and any other key at the
  end.
\<close>

definition set_prop :: "jstring \<Rightarrow> json \<Rightarrow> (jstring \<times> json) list \<Rightarrow> (jstring \<times> json) list" where
  "set_prop k v kvs =
     (if map_of kvs k \<noteq> None then AList.update k v kvs
      else
        (case array_index k of
           Some n \<Rightarrow> add_index n k v kvs
         | None \<Rightarrow> kvs @ [(k, v)]))"

text \<open>Assigning properties one after the other, as an object spread does.\<close>

definition assign :: "(jstring \<times> json) list \<Rightarrow> (jstring \<times> json) list \<Rightarrow> (jstring \<times> json) list" where
  "assign target props = fold (\<lambda>(k, v). set_prop k v) props target"

text \<open>
  The numeric conversion of an operand of \<^verbatim>\<open>>=\<close> or \<^verbatim>\<open>-\<close>; \<open>None\<close> where it throws.
\<close>

fun to_number :: "env \<Rightarrow> json option \<Rightarrow> number option" where
  "to_number e None = Some NaN"
| "to_number e (Some JNull) = Some (Num 0)"
| "to_number e (Some (JBool b)) = Some (Num (if b then 1 else 0))"
| "to_number e (Some (JNumber n)) = Some n"
| "to_number e (Some v) = ToNumber e v"

section \<open>src/lib/trends/scanner.ts\<close>

record ScannedTrend =
  title :: jstring
  summary :: jstring
  source_url :: jstring
  source_name :: jstring
  trend_keywords :: "jstring list"
  discovered_at :: jstring
  raw_content :: "jstring option"

definition trend_props :: "ScannedTrend \<Rightarrow> (jstring \<times> json) list" where
  "trend_props t =
     [(lit ''title'', JStr (title t)), (lit ''summary'', JStr (summary t)),
      (lit ''source_url'', JStr (source_url t)), (lit ''source_name'', JStr (source_name t)),
      (lit ''keywords'', JArr (map JStr (trend_keywords t))),
      (lit ''discovered_at'', JStr (discovered_at t))] @
     (case raw_content t of None \<Rightarrow> [] | Some c \<Rightarrow> [(lit ''raw_content'', JStr c)])"

text \<open>The object \<^verbatim>\<open>{ ...trend, ...scoring, trending_score: trendingScore }\<close>.\<close>

definition scored_trend :: "ScannedTrend \<Rightarrow> json \<Rightarrow> json" where
  "scored_trend t scoring =
     JObj (assign (assign (trend_props t) (own_props scoring))
             [(lit ''trending_score'', JNum 75)])"

text \<open>
  The \<^verbatim>\<open>for\<close> loop of \<^verbatim>\<open>scoreAndFilterTrends\<close>. Whatever is thrown while a trend is
  scored or compared is caught inside the loop and the trend is skipped.
\<close>

fun score_trends ::
  "env \<Rightarrow> ScannedTrend list \<Rightarrow> pillar list \<Rightarrow> jstring \<Rightarrow> number \<Rightarrow> call list \<Rightarrow> json list \<times> call list" where
  "score_trends e [] pillars voiceSummary minRelevanceScore cs = ([], cs)"
| "score_trends e (t # ts) pillars voiceSummary minRelevanceScore cs =
     (case scoreTrendRelevance e (title t) (summary t) pillars voiceSummary cs of
        (None, cs') \<Rightarrow> score_trends e ts pillars voiceSummary minRelevanceScore cs'
      | (Some scoring, cs') \<Rightarrow>
          (case score_trends e ts pillars voiceSummary minRelevanceScore cs' of
             (rest, cs'') \<Rightarrow>
               (case to_number e (field scoring (lit ''relevanceScore'')) of
                  Some n \<Rightarrow>
                    (if num_ge n minRelevanceScore then (scored_trend t scoring # rest, cs'')
                     else (rest, cs''))
                | None \<Rightarrow> (rest, cs''))))"

text \<open>
  The comparator \<^verbatim>\<open>(a, b) => b.relevance_score - a.relevance_score\<close>, by the sign of its
  result; a NaN result counts as 0 in \<^verbatim>\<open>Array.prototype.sort\<close>.
\<close>

definition by_relevance_score :: "env \<Rightarrow> json \<Rightarrow> json \<Rightarrow> real" where
  "by_relevance_score e a b =
     (case (to_number e (field b (lit ''relevance_score'')),
            to_number e (field a (lit ''relevance_score''))) of
        (Some y, Some x) \<Rightarrow> num_diff_sign y x
      | _ \<Rightarrow> 0)"

text \<open>
  \<^verbatim>\<open>Array.prototype.sort\<close> is stable; it is modelled by insertion from the right. (Where
  the comparator is not a consistent ordering, JavaScript leaves the order to the
  implementation.)
\<close>

fun insert_sorted :: "('a \<Rightarrow> 'a \<Rightarrow> real) \<Rightarrow> 'a \<Rightarrow> 'a list \<Rightarrow> 'a list" where
  "insert_sorted cmp a [] = [a]"
| "insert_sorted cmp a (b # bs) =
     (if cmp a b > 0 then b # insert_sorted cmp a bs else a # b # bs)"

definition sort_with :: "('a \<Rightarrow> 'a \<Rightarrow> real) \<Rightarrow> 'a list \<Rightarrow> 'a list" where
  "sort_with cmp xs = foldr (insert_sorted cmp) xs []"

text \<open>
  The comparator is called when the array has two elements or more, and then on every
  element; it throws when the numeric conversion of an element's key does.
\<close>

definition sort_by_relevance :: "env \<Rightarrow> json list \<Rightarrow> json list option" where
  "sort_by_relevance e xs =
     (if length xs \<ge> 2 \<and>
         list_ex (\<lambda>x. to_number e (field x (lit ''relevance_score'')) = None) xs
      then None
      else Some (sort_with (by_relevance_score e) xs))"

definition scoreAndFilterTrends ::
  "env \<Rightarrow> ScannedTrend list \<Rightarrow> pillar list \<Rightarrow> jstring \<Rightarrow> number \<Rightarrow> json list io" where
  "scoreAndFilterTrends e trends' pillars voiceSummary minRelevanceScore cs =
     (case score_trends e trends' pillars voiceSummary minRelevanceScore cs of
        (scoredTrends, cs') \<Rightarrow> (sort_by_relevance e scoredTrends, cs'))"


section \<open>src/lib/ai/deck-analyzer.ts\<close>

text \<open>
  The module that \<^verbatim>\<open>@/lib/ai/deck-analyzer\<close> names in the imports; its text is the
  second part of the file \<^verbatim>\<open>src/lib/ai/content-generator.ts\<close>.
\<close>

definition analyzeDeck :: "env \<Rightarrow> ExtractedDeck \<Rightarrow> json io" where
  "analyzeDeck e deck cs =
     (if extractedText deck = [] \<or> length (extractedText deck) < 100 then (Some JNull, cs)
      else generateJSON e (AnalyzeDeck deck) cs)"

text \<open>The first loop of \<^verbatim>\<open>analyzeMultipleDecks\<close>: the narratives that are truthy.\<close>

fun analyze_each :: "env \<Rightarrow> ExtractedDeck list \<Rightarrow> json list io" where
  "analyze_each e [] cs = (Some [], cs)"
| "analyze_each e (deck # decks) cs =
     (case analyzeDeck e deck cs of
        (None, cs') \<Rightarrow> (None, cs')
      | (Some narrative, cs') \<Rightarrow>
          (case analyze_each e decks cs' of
             (None, cs'') \<Rightarrow> (None, cs'')
           | (Some narratives, cs'') \<Rightarrow>
               (Some (if truthy narrative then narrative # narratives else narratives), cs'')))"

definition analyzeMultipleDecks :: "env \<Rightarrow> ExtractedDeck list \<Rightarrow> json io" where
  "analyzeMultipleDecks e decks cs =
     (if length decks = 0 then (Some JNull, cs)
      else
        (case analyze_each e decks cs of
           (None, cs') \<Rightarrow> (None, cs')
         | (Some narratives, cs') \<Rightarrow>
             (if length narratives = 0 then (Some JNull, cs')
              else if \<not> narrative_summary_builds e narratives then (None, cs')
              else
                (case generateJSON e (AnalyzeMultipleDecks narratives) cs' of
                   (None, cs'') \<Rightarrow> (None, cs'')
                 | (Some result, cs'') \<Rightarrow>
                     (if \<not> truthy result then (Some JNull, cs'')
                      else
                        (Some (JObj (assign [(lit ''narratives'', JArr narratives)]
                                       (own_props result))),
                         cs''))))))"

section \<open>The routes\<close>

text \<open>
  A response: the HTTP status and the JSON body as the client reads it. A request is
  its parsed body at the type the route declares for it, each field present or absent
  (a body that is a number, a string or a boolean has every field absent). The handlers
  at the end of this section add the bodies that are not JSON or are \<^verbatim>\<open>null\<close>.
\<close>

record response =
  status :: nat
  body :: json

text \<open>\<^verbatim>\<open>NextResponse.json({ data: d, error: err }, { status: st })\<close>\<close>

definition respond :: "nat \<Rightarrow> json \<Rightarrow> json \<Rightarrow> response" where
  "respond st d err =
     \<lparr>status = st, body = JObj [(lit ''data'', sent d), (lit ''error'', sent err)]\<rparr>"

definition failure :: "nat \<Rightarrow> string \<Rightarrow> response" where
  "failure st msg = respond st JNull (JStr (lit msg))"

subsection \<open>src/app/api/generate/route.ts\<close>

record generate_request =
  req_topic :: "jstring option"
  req_contentType :: "content_type option"
  req_creativityLevel :: "number option"
  req_samplePosts :: "jstring list option"
  req_trends :: "jstring list option"

definition POST_generate :: "env \<Rightarrow> generate_request \<Rightarrow> call list \<Rightarrow> response \<times> call list" where
  "POST_generate e req cs =
     (let contentType' = (case req_contentType req of None \<Rightarrow> Long | Some c \<Rightarrow> c);
          creativityLevel' = (case req_creativityLevel req of None \<Rightarrow> Num 30 | Some n \<Rightarrow> n);
          samplePosts' = (case req_samplePosts req of None \<Rightarrow> [] | Some ps \<Rightarrow> ps);
          trends' = (case req_trends req of None \<Rightarrow> [] | Some ts \<Rightarrow> ts)
      in
        (case req_topic req of
           None \<Rightarrow> (failure 400 ''Topic is required'', cs)
         | Some topic' \<Rightarrow>
             (if topic' = [] \<or> length (trim topic') = 0
              then (failure 400 ''Topic is required'', cs)
              else
                (case (if length samplePosts' > 0 then analyzeVoice e samplePosts' cs
                       else (Some JNull, cs)) of
                   (None, cs1) \<Rightarrow> (failure 500 ''Failed to generate content'', cs1)
                 | (Some voiceProfile', cs1) \<Rightarrow>
                     (case generateContent e
                             \<lparr>topic = trim topic', contentType = contentType',
                              creativityLevel = creativityLevel',
                              voiceProfile = voiceProfile',
                              samplePosts = samplePosts', trends = trends'\<rparr> cs1 of
                        (None, cs2) \<Rightarrow> (failure 500 ''Failed to generate content'', cs2)
                      | (Some result, cs2) \<Rightarrow>
                          (respond 200
                             (obj [(''variations'', Some (JArr (variations result))),
                                   (''generationTimeMs'', Some (JNum (generationTimeMs result))),
                                   (''voiceProfileUsed'', Some (JBool (truthy voiceProfile')))])
                             JNull,
                           cs2))))))"

subsection \<open>src/app/api/discover/pillars/route.ts\<close>

text \<open>
  The \<^verbatim>\<open>posts\<close> field is kept as the JSON value it was sent as, so that a request
  whose \<^verbatim>\<open>posts\<close> is not an array, or not an array of strings, is a request of the
  model.
\<close>

record pillars_request =
  req_posts :: "json option"
  req_decks :: "jstring list option"

fun isArray :: "json \<Rightarrow> bool" where
  "isArray (JArr xs) = True"
| "isArray v = False"

fun elements :: "json \<Rightarrow> json list" where
  "elements (JArr xs) = xs"
| "elements v = []"

text \<open>
  \<^verbatim>\<open>body.posts.filter((p) => p.trim().length > 50)\<close>. An element that is not a string
  has no \<^verbatim>\<open>trim\<close> method: the call throws a TypeError.
\<close>

fun validPosts :: "json list \<Rightarrow> jstring list option" where
  "validPosts [] = Some []"
| "validPosts (JStr p # ps) =
     map_option (\<lambda>vs. if length (trim p) > 50 then p # vs else vs) (validPosts ps)"
| "validPosts (v # ps) = None"

text \<open>
  \<^verbatim>\<open>body.decks.map((deckText, i) => parsePastedDeckText(deckText, `Deck ${i + 1}`))
  .filter((d) => d.extractedText.length > 100)\<close>
\<close>

definition parsedDecks :: "env \<Rightarrow> jstring list \<Rightarrow> ExtractedDeck list" where
  "parsedDecks e decks =
     filter (\<lambda>d. length (extractedText d) > 100)
       (map (\<lambda>(deckText, i). parsePastedDeckText e deckText (lit ''Deck '' @ show_nat (i + 1)))
          (zip decks [0..<length decks]))"

definition try_again :: string where
  "try_again = ''Failed to discover pillars. Please try again.''"

text \<open>The part of the route after pillar discovery has returned a truthy result.\<close>

definition respond_with_decks ::
  "env \<Rightarrow> jstring list option \<Rightarrow> json \<Rightarrow> call list \<Rightarrow> response \<times> call list" where
  "respond_with_decks e decks result cs =
     (case decks of
        None \<Rightarrow> (respond 200 result JNull, cs)
      | Some ds \<Rightarrow>
          (if length ds > 0 \<and> length (parsedDecks e ds) > 0 then
             (case analyzeMultipleDecks e (parsedDecks e ds) cs of
                (None, cs') \<Rightarrow> (failure 500 try_again, cs')
              | (Some deckAnalysis, cs') \<Rightarrow>
                  (if truthy deckAnalysis then
                     (case enrichPillarsWithDecks e (field result (lit ''pillars'')) deckAnalysis of
                        None \<Rightarrow> (failure 500 try_again, cs')
                      | Some enrichedPillars \<Rightarrow>
                          (case enrichedSummary e result deckAnalysis of
                             None \<Rightarrow> (failure 500 try_again, cs')
                           | Some s \<Rightarrow>
                               (respond 200
                                  (obj [(''pillars'', Some enrichedPillars),
                                        (''summary'', Some (JStr s))])
                                  JNull,
                                cs')))
                   else (respond 200 result JNull, cs')))
           else (respond 200 result JNull, cs)))"

definition POST_pillars :: "env \<Rightarrow> pillars_request \<Rightarrow> call list \<Rightarrow> response \<times> call list" where
  "POST_pillars e req cs =
     (case req_posts req of
        None \<Rightarrow> (failure 400 ''Please provide at least 3 posts for pillar discovery'', cs)
      | Some posts \<Rightarrow>
          (if \<not> truthy posts \<or> \<not> isArray posts \<or> length (elements posts) < 3
           then (failure 400 ''Please provide at least 3 posts for pillar discovery'', cs)
           else
             (case validPosts (elements posts) of
                None \<Rightarrow> (failure 500 try_again, cs)
              | Some valid \<Rightarrow>
                  (if length valid < 3
                   then (failure 400
                           ''Posts are too short. Each post should be at least 50 characters.'',
                         cs)
                   else
                     (let postsToAnalyze = take 20 valid in
                      case discoverPillars e postsToAnalyze cs of
                        (None, cs') \<Rightarrow> (failure 500 try_again, cs')
                      | (Some result, cs') \<Rightarrow>
                          (if \<not> truthy result then (failure 500 try_again, cs')
                           else respond_with_decks e (req_decks req) result cs'))))))"

subsection \<open>src/app/api/discover/topics/route.ts\<close>



subsection \<open>src/app/api/discover/trends/route.ts\<close>



subsection \<open>The handlers as a whole\<close>






section \<open>src/lib/utils/formatting.ts\<close>

text \<open>
  \<^verbatim>\<open>calculateEngagementRate(likes, comments, reposts, impressions)\<close>, in double arithmetic
  with the rounding \<open>rnd\<close>. The test \<^verbatim>\<open>impressions === 0\<close> holds for both zeros.
\<close>

definition calculateEngagementRate ::
  "(real \<Rightarrow> rounded) \<Rightarrow> number \<Rightarrow> number \<Rightarrow> number \<Rightarrow> number \<Rightarrow> number" where
  "calculateEngagementRate rnd likes comments reposts impressions =
     (if impressions = Num 0 then Num 0
      else num_mul rnd
             (num_div rnd (num_add rnd (num_add rnd likes comments) reposts) impressions)
             (Num 100))"

section \<open>Predicates of the claims\<close>


text \<open>
  A variation as a response of POST /api/generate carries it: \<^verbatim>\<open>id\<close> and \<^verbatim>\<open>content\<close> of
  the element \<open>v\<close> that the model replied, the score \<open>overall\<close> and a breakdown of three
  scores. A value that is \<^verbatim>\<open>undefined\<close> (\<open>None\<close>) is left out of the object, and a number
  that is not finite is read as \<^verbatim>\<open>null\<close>.
\<close>

definition variation_sent ::
  "json \<Rightarrow> json option \<Rightarrow> json option \<Rightarrow> json option \<Rightarrow> json option \<Rightarrow> json" where
  "variation_sent v overall structure' tone vocabulary =
     sent (obj [(''id'', field v (lit ''id'')),
                (''content'', field v (lit ''content'')),
                (''voice_match_score'', overall),
                (''voice_match_breakdown'',
                   Some (obj [(''structure'', structure'), (''tone'', tone),
                              (''vocabulary'', vocabulary)]))])"



text \<open>
  The first fenced block of a text, stated on the text itself: \<open>c\<close> is what stands
  between the first \<^verbatim>\<open>```\<close> of \<open>t\<close>, an optional \<^verbatim>\<open>json\<close> and all the white space after
  it, and the next \<^verbatim>\<open>```\<close>.
\<close>

definition first_fenced :: "jstring \<Rightarrow> jstring \<Rightarrow> bool" where
  "first_fenced t c \<longleftrightarrow>
     (\<exists>before tag ws after.
        t = before @ fence @ tag @ ws @ c @ fence @ after \<and>
        (\<forall>i<length before. \<not> prefix fence (drop i t)) \<and>
        (tag = lit ''json'' \<or> tag = [] \<and> \<not> prefix (lit ''json'') (ws @ c @ fence @ after)) \<and>
        list_all is_white ws \<and> \<not> is_white (hd (c @ fence)) \<and>
        (\<forall>i<length c. \<not> prefix fence (drop i (c @ fence @ after))))"

text \<open>
  The \<open>k\<close>-th call of the model gives \<^verbatim>\<open>generateJSON\<close> nothing: the call is rejected, or
  \<^verbatim>\<open>generateJSON\<close> returns \<^verbatim>\<open>null\<close> for its reply.
\<close>

definition no_json_reply :: "env \<Rightarrow> nat \<Rightarrow> bool" where
  "no_json_reply e k =
     (case model e k of Fails \<Rightarrow> True | Replies t \<Rightarrow> parse_reply e t = JNull)"

text \<open>The number that an object holds as \<^verbatim>\<open>relevance_score\<close>.\<close>

definition relevance_number :: "json \<Rightarrow> real" where
  "relevance_number x =
     (case field x (lit ''relevance_score'') of Some (JNumber (Num n)) \<Rightarrow> n | _ \<Rightarrow> 0)"

section \<open>Example runs\<close>

text \<open>
  A run is fixed by what \<^verbatim>\<open>JSON.parse\<close> returns on the texts it is given and by the
  replies of the remote model. In the examples \<^verbatim>\<open>JSON.parse\<close> is given by a table that
  agrees with the real one on every text the run parses; the other parameters take no
  part in the examples.
\<close>

definition scripted :: "(jstring \<Rightarrow> json option) \<Rightarrow> (nat \<Rightarrow> reply) \<Rightarrow> env" where
  "scripted parse replies =
     \<lparr>JSON_parse = parse, model = replies, clock = (\<lambda>k. 1000 * real k),
      now_iso = lit ''2026-01-01T00:00:00.000Z'',
      ToNumber = (\<lambda>v. Some NaN),
      voice_context_builds = (\<lambda>v. True),
      score_prompt_builds = (\<lambda>c v. True),
      narrative_summary_builds = (\<lambda>ns. True),
      parsePastedDeckText =
        (\<lambda>t f. \<lparr>fileName = f, slideCount = 1, extractedText = trim t\<rparr>),
      enrichPillarsWithDecks = (\<lambda>p d. None),
      enrichedSummary = (\<lambda>r d. None)\<rparr>"

definition always :: "reply \<Rightarrow> nat \<Rightarrow> reply" where
  "always r k = r"

definition parses_nothing :: "jstring \<Rightarrow> json option" where
  "parses_nothing t = None"

definition script :: "reply list \<Rightarrow> nat \<Rightarrow> reply" where
  "script rs k = (if k < length rs then rs ! k else Fails)"

definition empty_object_text :: jstring where
  "empty_object_text = lit ''{}''"

definition no_variations_text :: jstring where
  \<open>no_variations_text = lit ''{"variations":[]}''\<close>

definition three_variations_text :: jstring where
  \<open>three_variations_text =
     lit ''{"variations":[{"id":"var-1","content":"One"},{"id":"var-2","content":"Two"},{"id":"var-3","content":"Three"}]}''\<close>

definition relevance_60_text :: jstring where
  \<open>relevance_60_text = lit ''{"relevanceScore":60}''\<close>

definition relevance_90_text :: jstring where
  \<open>relevance_90_text = lit ''{"relevanceScore":90}''\<close>

definition two_blocks_text :: jstring where
  "two_blocks_text = lit ''```x``` ```json{}```''"

definition fenced_object_text :: jstring where
  "fenced_object_text = lit ''```json {} ```''"

definition one_variation_text :: jstring where
  \<open>one_variation_text = lit ''{"variations":[{"id":"var-1","content":"One"}]}''\<close>

definition profile_text :: jstring where
  \<open>profile_text =
     lit ''{"structural":{"hook_patterns":[],"post_structure":[],"cta_patterns":[]},"linguistic":{"tone_markers":{},"common_phrases":[],"emoji_usage":{},"punctuation_style":{}},"content":{"topics":[],"values":[],"frameworks":[],"opinions":[]},"summary":"plain"}''\<close>

definition profile :: json where
  "profile =
     JObj [(lit ''structural'',
            JObj [(lit ''hook_patterns'', JArr []), (lit ''post_structure'', JArr []),
                  (lit ''cta_patterns'', JArr [])]),
           (lit ''linguistic'',
            JObj [(lit ''tone_markers'', JObj []), (lit ''common_phrases'', JArr []),
                  (lit ''emoji_usage'', JObj []), (lit ''punctuation_style'', JObj [])]),
           (lit ''content'',
            JObj [(lit ''topics'', JArr []), (lit ''values'', JArr []),
                  (lit ''frameworks'', JArr []), (lit ''opinions'', JArr [])]),
           (lit ''summary'', JStr (lit ''plain''))]"

definition overall_150_text :: jstring where
  \<open>overall_150_text = lit ''{"overall":150}''\<close>

definition too_large_text :: jstring where
  "too_large_text = lit ''1e999''"

definition variation :: "string \<Rightarrow> string \<Rightarrow> json" where
  "variation i c = JObj [(lit ''id'', JStr (lit i)), (lit ''content'', JStr (lit c))]"

definition parse_examples :: "jstring \<Rightarrow> json option" where
  "parse_examples t =
     (if t = empty_object_text then Some (JObj [])
      else if t = no_variations_text then Some (JObj [(lit ''variations'', JArr [])])
      else if t = three_variations_text then
        Some (JObj [(lit ''variations'',
                     JArr [variation ''var-1'' ''One'', variation ''var-2'' ''Two'',
                           variation ''var-3'' ''Three''])])
      else if t = relevance_60_text then Some (JObj [(lit ''relevanceScore'', JNum 60)])
      else if t = relevance_90_text then Some (JObj [(lit ''relevanceScore'', JNum 90)])
      else if t = one_variation_text then
        Some (JObj [(lit ''variations'', JArr [variation ''var-1'' ''One''])])
      else if t = profile_text then Some profile
      else if t = overall_150_text then Some (JObj [(lit ''overall'', JNum 150)])
      else if t = too_large_text then Some (JNumber PosInf)
      else None)"

definition scored_150_replies :: "nat \<Rightarrow> reply" where
  "scored_150_replies =
     script [Replies profile_text, Replies one_variation_text, Replies overall_150_text]"

definition ai_request :: generate_request where
  "ai_request =
     \<lparr>req_topic = Some (lit ''AI''), req_contentType = None, req_creativityLevel = None,
      req_samplePosts = None, req_trends = None\<rparr>"

definition sampled_request :: generate_request where
  "sampled_request =
     \<lparr>req_topic = Some (lit ''AI''), req_contentType = None, req_creativityLevel = None,
      req_samplePosts = Some [lit ''Hello world''], req_trends = None\<rparr>"

text \<open>
  A rounding that leaves every value as it is. It agrees with the rounding of doubles
  on the values of the examples, which are doubles.
\<close>

definition exact :: "real \<Rightarrow> rounded" where
  "exact x = Finite x"

definition blank_topic_request :: generate_request where
  "blank_topic_request =
     \<lparr>req_topic = Some (lit ''   ''), req_contentType = None, req_creativityLevel = None,
      req_samplePosts = None, req_trends = None\<rparr>"

definition long_post :: "nat \<Rightarrow> jstring" where
  "long_post n = replicate (60 + n) 0x61"


definition posts21 :: "jstring list" where
  "posts21 = map long_post [0..<21]"

definition posts21_request :: pillars_request where
  "posts21_request = \<lparr>req_posts = Some (JArr (map JStr posts21)), req_decks = None\<rparr>"

definition two_posts_request :: pillars_request where
  "two_posts_request =
     \<lparr>req_posts = Some (JArr [JStr (long_post 0), JStr (long_post 1)]), req_decks = None\<rparr>"

definition trend_a :: ScannedTrend where
  "trend_a =
     \<lparr>title = lit ''A'', summary = lit ''first'', source_url = lit ''https://example.com/a'',
      source_name = lit ''News'', trend_keywords = [lit ''AI''],
      discovered_at = lit ''2026-01-01T00:00:00.000Z'', raw_content = None\<rparr>"

definition trend_b :: ScannedTrend where
  "trend_b =
     \<lparr>title = lit ''B'', summary = lit ''second'', source_url = lit ''https://example.com/b'',
      source_name = lit ''News'', trend_keywords = [lit ''AI''],
      discovered_at = lit ''2026-01-01T00:00:00.000Z'', raw_content = None\<rparr>"

definition ranked :: "real \<Rightarrow> json" where
  "ranked n = JObj [(lit ''relevance_score'', JNum n)]"

definition ai_pillar :: pillar where
  "ai_pillar = \<lparr>name = lit ''AI'', description = lit ''AI at work''\<rparr>"

section \<open>Engagement rate\<close>

text \<open>
  C10. For all finite inputs, the integers among them, \<open>calculateEngagementRate\<close> returns
  a number that is not NaN. When impressions is 0 it returns 0, where the quotient
  itself is NaN or an infinity: the guard is what keeps the division from being
  evaluated. When impressions is not 0 it returns the value of the expression
  \<^verbatim>\<open>((likes + comments + reposts) / impressions) * 100\<close> in double arithmetic, each
  operation rounded; this is the exact value (likes + comments + reposts) / impressions
  * 100 whenever the four intermediate results are doubles.
\<close>

theorem calculateEngagementRate_total:
  "calculateEngagementRate rnd (Num l) (Num c) (Num r) (Num i) \<noteq> NaN \<and>
   (i = 0 \<longrightarrow>
      calculateEngagementRate rnd (Num l) (Num c) (Num r) (Num i) = Num 0 \<and>
      num_div rnd (num_add rnd (num_add rnd (Num l) (Num c)) (Num r)) (Num i)
        \<in> {NaN, PosInf, NegInf}) \<and>
   (i \<noteq> 0 \<longrightarrow>
      calculateEngagementRate rnd (Num l) (Num c) (Num r) (Num i) =
        num_mul rnd
          (num_div rnd (num_add rnd (num_add rnd (Num l) (Num c)) (Num r)) (Num i))
          (Num 100)) \<and>
   (i \<noteq> 0 \<and> rnd (l + c) = Finite (l + c) \<and> rnd (l + c + r) = Finite (l + c + r) \<and>
    rnd ((l + c + r) / i) = Finite ((l + c + r) / i) \<and>
    rnd ((l + c + r) / i * 100) = Finite ((l + c + r) / i * 100) \<longrightarrow>
      calculateEngagementRate rnd (Num l) (Num c) (Num r) (Num i) =
        Num ((l + c + r) / i * 100))"
proof -
  obtain s where s: "num_add rnd (num_add rnd (Num l) (Num c)) (Num r) = s" and "s \<noteq> NaN"
    by (cases "rnd (l + c)"; cases "rnd (l + c + r)")
       (auto simp: round_to_def split: rounded.splits)
  then have finite_or_inf: "(\<exists>a. s = Num a) \<or> s = PosInf \<or> s = NegInf"
    by (cases s) auto
  have zero: "num_div rnd s (Num 0) \<in> {NaN, PosInf, NegInf}"
    using finite_or_inf by (auto split: if_splits)
  have q: "i \<noteq> 0 \<Longrightarrow> num_div rnd s (Num i) \<noteq> NaN"
    using finite_or_inf by (auto simp: round_to_def split: rounded.splits if_splits)
  have m: "i \<noteq> 0 \<Longrightarrow> num_mul rnd (num_div rnd s (Num i)) (Num 100) \<noteq> NaN"
    using q by (cases "num_div rnd s (Num i)") (auto simp: round_to_def split: rounded.splits)
  have exact_value:
    "i \<noteq> 0 \<and> rnd (l + c) = Finite (l + c) \<and> rnd (l + c + r) = Finite (l + c + r) \<and>
     rnd ((l + c + r) / i) = Finite ((l + c + r) / i) \<and>
     rnd ((l + c + r) / i * 100) = Finite ((l + c + r) / i * 100) \<longrightarrow>
       calculateEngagementRate rnd (Num l) (Num c) (Num r) (Num i) =
         Num ((l + c + r) / i * 100)"
    by (simp add: calculateEngagementRate_def round_to_def)
  show ?thesis
    using zero m exact_value unfolding s [symmetric]
    by (simp add: calculateEngagementRate_def)
qed

text \<open>
  C10 at inputs with impressions 0, and at 1 like and 1 comment on 4 impressions, where
  every intermediate result is a double.
\<close>

theorem calculateEngagementRate_total_witness:
  "calculateEngagementRate exact (Num 3) (Num 1) (Num 1) (Num 0) = Num 0 \<and>
   calculateEngagementRate exact (Num 1) (Num 1) (Num 0) (Num 4) = Num 50"
  using calculateEngagementRate_total [of exact 3 1 1 0]
    calculateEngagementRate_total [of exact 1 1 0 4]
  by (simp add: exact_def round_to_def)

section \<open>Auxiliary facts\<close>

lemma trim_empty_iff: "trim s = [] \<longleftrightarrow> (\<forall>c\<in>set s. is_white c)"
proof
  assume "trim s = []"
  then have all: "\<forall>c\<in>set (dropWhile is_white s). is_white c"
    by (simp add: trim_def dropWhile_eq_Nil_conv)
  have "dropWhile is_white s = []"
  proof (rule ccontr)
    assume ne: "dropWhile is_white s \<noteq> []"
    then have "\<not> is_white (hd (dropWhile is_white s))"
      by (rule hd_dropWhile)
    moreover have "hd (dropWhile is_white s) \<in> set (dropWhile is_white s)"
      using ne by simp
    ultimately show False using all by blast
  qed
  then show "\<forall>c\<in>set s. is_white c"
    by (simp add: dropWhile_eq_Nil_conv)
next
  assume "\<forall>c\<in>set s. is_white c"
  then have d: "dropWhile is_white s = []"
    by (simp add: dropWhile_eq_Nil_conv)
  show "trim s = []"
    unfolding trim_def d by simp
qed

lemma generateJSON_calls: "snd (generateJSON e c cs) = cs @ [c]"
  by (simp add: generateJSON_def generateText_def split: reply.splits)

lemma generateJSON_appends: "generateJSON e c cs = (r, cs') \<Longrightarrow> cs' = cs @ [c]"
  using generateJSON_calls [of e c cs] by simp

lemma obj3: "obj [(a, Some x), (b, Some y), (c, Some z)] = JObj [(lit a, x), (lit b, y), (lit c, z)]"
  by (simp add: obj_def List.map_filter_def)

lemma status_respond: "status (respond st d err) = st"
  by (simp add: respond_def)

lemma status_failure: "status (failure st msg) = st"
  by (simp add: failure_def respond_def)

lemma map_of_sent: "map_of (map (map_prod id sent) kvs) k = map_option sent (map_of kvs k)"
  by (induction kvs) auto

lemma field_sent: "field (sent v) k = map_option sent (field v k)"
  by (cases v) (simp_all add: map_of_sent split: number.splits)


lemma field_scored_score: "field (scored v sc) (lit ''voice_match_score'') = sc_overall sc"
  by (cases "field v (lit ''id'')"; cases "field v (lit ''content'')"; cases "sc_overall sc")
     (simp_all add: scored_def obj_def List.map_filter_def lit_def)

lemma field_scored_breakdown:
  "field (scored v sc) (lit ''voice_match_breakdown'') =
     Some (obj [(''structure'', sc_structure sc), (''tone'', sc_tone sc), (''vocabulary'', sc_vocabulary sc)])"
  by (cases "field v (lit ''id'')"; cases "field v (lit ''content'')"; cases "sc_overall sc")
     (simp_all add: scored_def obj_def List.map_filter_def lit_def)

lemmas example_texts =
  empty_object_text_def no_variations_text_def three_variations_text_def
  relevance_60_text_def relevance_90_text_def one_variation_text_def profile_text_def
  overall_150_text_def too_large_text_def

lemma trim_replicate: "\<not> is_white c \<Longrightarrow> trim (replicate n c) = replicate n c"
  by (cases n) (simp_all add: trim_def dropWhile_replicate del: replicate.simps)

lemma long_post_kept: "50 < length (trim (long_post n))"
  by (simp add: long_post_def trim_replicate is_white_def)


lemma posts21_kept: "filter (\<lambda>p. 50 < length (trim p)) posts21 = posts21"
  by (simp add: posts21_def long_post_kept)

lemma three_variations_run:
  "POST_generate (scripted parse_examples (always (Replies three_variations_text)))
      ai_request [] =
   (respond 200
      (obj [(''variations'',
             Some (JArr [scored (variation ''var-1'' ''One'') (fixed_score 75),
                         scored (variation ''var-2'' ''Two'') (fixed_score 75),
                         scored (variation ''var-3'' ''Three'') (fixed_score 75)])),
            (''generationTimeMs'', Some (JNum 1000)),
            (''voiceProfileUsed'', Some (JBool False))]) JNull,
    [GenerateContent (lit ''AI'') Long (Num 30) JNull [] []])"
  by (simp add: POST_generate_def ai_request_def scripted_def always_def generateContent_def
        generateJSON_def generateText_def parse_reply_def parse_examples_def example_texts
        three_variations_text_def no_variations_text_def empty_object_text_def
        score_variation_def variation_def trim_def is_white_def lit_def)

lemma parse_profile: "parse_examples profile_text = Some profile"
  by (simp add: parse_examples_def example_texts lit_def)

lemma parse_one: "parse_examples one_variation_text =
    Some (JObj [(lit ''variations'', JArr [variation ''var-1'' ''One''])])"
  by (simp add: parse_examples_def example_texts lit_def)

lemma parse_150: "parse_examples overall_150_text = Some (JObj [(lit ''overall'', JNum 150)])"
  by (simp add: parse_examples_def example_texts lit_def)


lemma scripted_fields:
  "JSON_parse (scripted p rs) = p" "model (scripted p rs) = rs"
  "clock (scripted p rs) k = 1000 * real k"
  "voice_context_builds (scripted p rs) v" "score_prompt_builds (scripted p rs) c v"
  by (simp_all add: scripted_def)

lemma scored_150_model:
  "scored_150_replies 0 = Replies profile_text"
  "scored_150_replies (Suc 0) = Replies one_variation_text"
  "scored_150_replies (Suc (Suc 0)) = Replies overall_150_text"
  by (simp_all add: scored_150_replies_def script_def)

lemma lit_AI: "lit ''AI'' \<noteq> []"
  by (simp add: lit_def)

lemma trim_AI: "trim (lit ''AI'') = lit ''AI''"
  by (simp add: trim_def is_white_def lit_def)

lemma truthy_profile: "truthy profile"
  by (simp add: profile_def)

lemma sampled_voice:
  "analyzeVoice (scripted parse_examples scored_150_replies) [lit ''Hello world''] [] =
     (Some profile, [AnalyzeVoice [lit ''Hello world'']])"
  by (simp add: analyzeVoice_def generateJSON_def generateText_def parse_reply_def
        scripted_fields scored_150_model parse_profile)

lemma sampled_score:
  "score_variation (scripted parse_examples scored_150_replies) profile
     (variation ''var-1'' ''One'') [c0, c1] =
   (Some (scored (variation ''var-1'' ''One'')
            (score_from (JObj [(lit ''overall'', JNum 150)]))),
    [c0, c1, ScoreVoiceMatch (Some (JStr (lit ''One''))) profile])"
  by (simp add: score_variation_def truthy_profile scoreVoiceMatch_def reply_score_def
        generateJSON_def generateText_def parse_reply_def scripted_fields scored_150_model
        parse_150 variation_def lit_def)

lemma sampled_content:
  "generateContent (scripted parse_examples scored_150_replies)
     \<lparr>topic = lit ''AI'', contentType = Long, creativityLevel = Num 30,
      voiceProfile = profile, samplePosts = [lit ''Hello world''], trends = []\<rparr>
     [AnalyzeVoice [lit ''Hello world'']] =
   (Some \<lparr>variations = [scored (variation ''var-1'' ''One'')
                          (score_from (JObj [(lit ''overall'', JNum 150)]))],
          generationTimeMs = 2000\<rparr>,
    [AnalyzeVoice [lit ''Hello world''],
     GenerateContent (lit ''AI'') Long (Num 30) profile [lit ''Hello world''] [],
     ScoreVoiceMatch (Some (JStr (lit ''One''))) profile])"
  by (simp add: generateContent_def Let_def truthy_profile generateJSON_def generateText_def
        parse_reply_def scripted_fields scored_150_model parse_one sampled_score)

lemma sampled_run:
  "POST_generate (scripted parse_examples scored_150_replies) sampled_request [] =
   (respond 200
      (obj [(''variations'',
             Some (JArr [scored (variation ''var-1'' ''One'')
                           (score_from (JObj [(lit ''overall'', JNum 150)]))])),
            (''generationTimeMs'', Some (JNum 2000)),
            (''voiceProfileUsed'', Some (JBool True))]) JNull,
    [AnalyzeVoice [lit ''Hello world''],
     GenerateContent (lit ''AI'') Long (Num 30) profile [lit ''Hello world''] [],
     ScoreVoiceMatch (Some (JStr (lit ''One''))) profile])"
  by (simp add: POST_generate_def sampled_request_def Let_def lit_AI trim_AI sampled_voice
        sampled_content truthy_profile)

section \<open>POST /api/generate: the topic is required\<close>

text \<open>
  C6. A request to POST /api/generate whose topic is missing, empty or only white space
  is answered with status 400 and the body \<^verbatim>\<open>{ data: null, error: 'Topic is required' }\<close>,
  and no call of the model is issued: the list of calls is returned as it was.
\<close>

theorem generate_topic_required:
  assumes "req_topic req = None \<or> (\<exists>t. req_topic req = Some t \<and> (\<forall>c\<in>set t. is_white c))"
  shows "POST_generate e req cs =
           (\<lparr>status = 400,
             body = JObj [(lit ''data'', JNull), (lit ''error'', JStr (lit ''Topic is required''))]\<rparr>,
            cs)"
  using assms
  by (auto simp: POST_generate_def failure_def respond_def trim_empty_iff Let_def)

text \<open>
  The hypothesis of C6 at a request whose topic is three spaces.
\<close>

theorem generate_topic_required_witness:
  "list_all is_white (lit ''   '') \<and>
   POST_generate (scripted parses_nothing (always Fails)) blank_topic_request [] =
     (\<lparr>status = 400,
       body = JObj [(lit ''data'', JNull), (lit ''error'', JStr (lit ''Topic is required''))]\<rparr>,
      [])"
  using generate_topic_required
          [of blank_topic_request "scripted parses_nothing (always Fails)" "[]"]
  by (simp add: blank_topic_request_def lit_def is_white_def)

section \<open>POST /api/discover/pillars: at least three posts\<close>

text \<open>
  C3. A request to POST /api/discover/pillars whose \<^verbatim>\<open>posts\<close> field is missing, is not an
  array or has fewer than 3 elements is answered with status 400 and the message
  \<^verbatim>\<open>Please provide at least 3 posts for pillar discovery\<close>; and \<open>discoverPillars\<close> returns
  \<^verbatim>\<open>null\<close>, without calling the model, for every list of fewer than 3 posts.
\<close>

theorem pillars_needs_three_posts:
  "(req_posts req = None \<or> (\<exists>v. req_posts req = Some v \<and> \<not> isArray v) \<or>
      (\<exists>xs. req_posts req = Some (JArr xs) \<and> length xs < 3)
    \<longrightarrow> POST_pillars e req cs =
          (\<lparr>status = 400,
            body = JObj [(lit ''data'', JNull),
                         (lit ''error'', JStr (lit ''Please provide at least 3 posts for pillar discovery''))]\<rparr>,
           cs)) \<and>
   (length posts < 3 \<longrightarrow> discoverPillars e posts cs = (Some JNull, cs))"
  by (auto simp: POST_pillars_def failure_def respond_def discoverPillars_def)

text \<open>
  The hypothesis of C3 at a request with two posts.
\<close>

theorem pillars_needs_three_posts_witness:
  "POST_pillars (scripted parses_nothing (always Fails)) two_posts_request [] =
     (\<lparr>status = 400,
       body = JObj [(lit ''data'', JNull),
                    (lit ''error'',
                     JStr (lit ''Please provide at least 3 posts for pillar discovery''))]\<rparr>,
      []) \<and>
   discoverPillars (scripted parses_nothing (always Fails)) [long_post 0, long_post 1] [] =
     (Some JNull, [])"
  using pillars_needs_three_posts
          [of two_posts_request "scripted parses_nothing (always Fails)" "[]"
              "[long_post 0, long_post 1]"]
  by (simp add: two_posts_request_def)

section \<open>POST /api/generate without sample posts\<close>

lemma score_all_no_profile:
  "\<not> truthy vp \<Longrightarrow> score_all e vp vs cs = (Some out, cs') \<Longrightarrow>
     cs' = cs \<and> out = map (\<lambda>v. scored v (fixed_score 75)) vs"
  by (induction vs arbitrary: out cs cs')
     (auto simp: score_variation_def split: prod.splits option.splits)

lemma generateContent_no_profile:
  assumes "\<not> truthy (voiceProfile inp)" and "generateContent e inp cs = (Some out, cs')"
  shows "(\<exists>vs. variations out = map (\<lambda>v. scored v (fixed_score 75)) vs) \<and>
         cs' = cs @ [GenerateContent (topic inp) (contentType inp) (creativityLevel inp)
                       (voiceProfile inp) (samplePosts inp) (trends inp)]"
  using assms
  by (auto simp: generateContent_def Let_def
           split: prod.splits option.splits if_splits json.splits
           dest!: score_all_no_profile generateJSON_appends)

text \<open>
  C9. For a request to POST /api/generate with no sample posts (the list is empty or
  absent), no voice profile is produced: \<open>analyzeVoice\<close> on the empty list returns \<^verbatim>\<open>null\<close>
  without a call of the model, and the only call that a response with status 200 has
  issued is the one for the variations, with the profile \<^verbatim>\<open>null\<close>. Such a response has
  \<^verbatim>\<open>voiceProfileUsed\<close> false and, for every variation, \<^verbatim>\<open>voice_match_score\<close> 75 and
  \<^verbatim>\<open>voice_match_breakdown\<close> \<^verbatim>\<open>{ structure: 75, tone: 75, vocabulary: 75 }\<close>.
\<close>

theorem generate_without_samples:
  assumes "req_samplePosts req = None \<or> req_samplePosts req = Some []"
    and "POST_generate e req cs = (resp, cs')"
    and "status resp = 200"
  shows "analyzeVoice e [] cs = (Some JNull, cs) \<and>
         (\<exists>t ct cl tr. cs' = cs @ [GenerateContent t ct cl JNull [] tr]) \<and>
         (\<exists>vs t. body resp =
                   JObj [(lit ''data'',
                          JObj [(lit ''variations'', JArr vs), (lit ''generationTimeMs'', JNum t),
                                (lit ''voiceProfileUsed'', JBool False)]),
                         (lit ''error'', JNull)] \<and>
                 (\<forall>v\<in>set vs.
                    field v (lit ''voice_match_score'') = Some (JNum 75) \<and>
                    field v (lit ''voice_match_breakdown'') =
                      Some (JObj [(lit ''structure'', JNum 75), (lit ''tone'', JNum 75),
                                  (lit ''vocabulary'', JNum 75)])))"
proof -
  have no_samples: "(case req_samplePosts req of None \<Rightarrow> [] | Some ps \<Rightarrow> ps) = []"
    using assms(1) by auto
  obtain inp out where gen: "generateContent e inp cs = (Some out, cs')"
    and vp: "voiceProfile inp = JNull"
    and sp: "samplePosts inp = []"
    and resp: "resp = respond 200
                 (obj [(''variations'', Some (JArr (variations out))),
                       (''generationTimeMs'', Some (JNum (generationTimeMs out))),
                       (''voiceProfileUsed'', Some (JBool False))]) JNull"
    using assms(2,3) no_samples
    by (auto simp: POST_generate_def Let_def failure_def respond_def
             split: option.splits if_splits prod.splits)
  from gen vp obtain vs where vs: "variations out = map (\<lambda>v. scored v (fixed_score 75)) vs"
    and calls: "cs' = cs @ [GenerateContent (topic inp) (contentType inp) (creativityLevel inp)
                              (voiceProfile inp) (samplePosts inp) (trends inp)]"
    using generateContent_no_profile [of inp e cs out cs'] by auto
  have "\<forall>v\<in>set (map sent (variations out)).
          field v (lit ''voice_match_score'') = Some (JNum 75) \<and>
          field v (lit ''voice_match_breakdown'') =
            Some (JObj [(lit ''structure'', JNum 75), (lit ''tone'', JNum 75),
                        (lit ''vocabulary'', JNum 75)])"
    unfolding vs
    by (auto simp: field_sent field_scored_score field_scored_breakdown fixed_score_def obj3)
  moreover have "analyzeVoice e [] cs = (Some JNull, cs)"
    by (simp add: analyzeVoice_def)
  moreover have "\<exists>t ct cl tr. cs' = cs @ [GenerateContent t ct cl JNull [] tr]"
    using calls vp sp by auto
  ultimately show ?thesis
    unfolding resp by (simp add: respond_def obj3)
qed

text \<open>
  The hypotheses of C9 at a request for the topic \<^verbatim>\<open>AI\<close> to which the model replies with
  three variations: the response has status 200 and three variations of score 75.
\<close>

theorem generate_without_samples_witness:
  "req_samplePosts ai_request = None \<and>
   status (fst (POST_generate (scripted parse_examples (always (Replies three_variations_text)))
                  ai_request [])) = 200 \<and>
   analyzeVoice (scripted parse_examples (always (Replies three_variations_text))) [] [] =
     (Some JNull, []) \<and>
   (\<exists>vs t. body (fst (POST_generate
                        (scripted parse_examples (always (Replies three_variations_text)))
                        ai_request [])) =
              JObj [(lit ''data'',
                     JObj [(lit ''variations'', JArr vs), (lit ''generationTimeMs'', JNum t),
                           (lit ''voiceProfileUsed'', JBool False)]),
                    (lit ''error'', JNull)] \<and>
            length vs = 3 \<and>
            list_all (\<lambda>v. field v (lit ''voice_match_score'') = Some (JNum 75)) vs)"
proof -
  have s: "req_samplePosts ai_request = None" by (simp add: ai_request_def)
  have st: "status (fst (POST_generate
              (scripted parse_examples (always (Replies three_variations_text)))
              ai_request [])) = 200"
    by (simp add: three_variations_run respond_def)
  from generate_without_samples [OF disjI1 [OF s] three_variations_run]
  show ?thesis
    using s st
    by (auto simp: three_variations_run respond_def obj3 list_all_iff field_sent
          field_scored_score fixed_score_def)
qed

section \<open>The response envelope\<close>


















section \<open>POST /api/generate: the variations of a successful response\<close>

lemma scoreVoiceMatch_Some:
  assumes "scoreVoiceMatch e c vp cs = (Some sc, cs')"
  shows "length cs' = length cs + 1 \<and>
         (\<exists>r. model e (length cs) = Replies r \<and> sc = reply_score (parse_reply e r))"
  using assms
  by (auto simp: scoreVoiceMatch_def generateJSON_def generateText_def
           split: if_splits prod.splits option.splits reply.splits)

lemma score_variation_Some:
  assumes "truthy vp" and "score_variation e vp v cs = (Some x, cs')"
  shows "length cs' = length cs + 1 \<and>
         (\<exists>r. model e (length cs) = Replies r \<and>
              x = scored v (reply_score (parse_reply e r)))"
  using assms
  by (auto simp: score_variation_def split: prod.splits option.splits
           dest!: scoreVoiceMatch_Some)

lemma score_all_Some:
  "truthy vp \<Longrightarrow> score_all e vp vs cs = (Some out, cs') \<Longrightarrow>
     length out = length vs \<and>
     (\<forall>i<length vs. \<exists>r. model e (length cs + i) = Replies r \<and>
                         out ! i = scored (vs ! i) (reply_score (parse_reply e r)))"
proof (induction vs arbitrary: out cs cs')
  case Nil
  then show ?case by simp
next
  case (Cons v vs)
  from Cons.prems(2) obtain x xs cs1 where
    hd: "score_variation e vp v cs = (Some x, cs1)" and
    tl: "score_all e vp vs cs1 = (Some xs, cs')" and
    out: "out = x # xs"
    by (auto split: prod.splits option.splits)
  from score_variation_Some [OF Cons.prems(1) hd] obtain r0 where
    l1: "length cs1 = length cs + 1" and
    first: "model e (length cs) = Replies r0" "x = scored v (reply_score (parse_reply e r0))"
    by auto
  from Cons.IH [OF Cons.prems(1) tl] have len: "length xs = length vs"
    and rest: "\<forall>i<length vs. \<exists>r. model e (length cs1 + i) = Replies r \<and>
                                 xs ! i = scored (vs ! i) (reply_score (parse_reply e r))"
    by auto
  show ?case
  proof (intro conjI allI impI)
    show "length out = length (v # vs)" using out len by simp
  next
    fix i assume i: "i < length (v # vs)"
    show "\<exists>r. model e (length cs + i) = Replies r \<and>
              out ! i = scored ((v # vs) ! i) (reply_score (parse_reply e r))"
    proof (cases i)
      case 0
      with first out show ?thesis by simp
    next
      case (Suc j)
      with i have "j < length vs" by simp
      with rest obtain r where
        "model e (length cs1 + j) = Replies r"
        "xs ! j = scored (vs ! j) (reply_score (parse_reply e r))" by blast
      with Suc out l1 show ?thesis by simp
    qed
  qed
qed

lemma generateContent_Some:
  assumes "generateContent e inp cs = (Some out, cs')"
  shows "\<exists>reply vs.
           model e (length cs) = Replies reply \<and>
           field (parse_reply e reply) (lit ''variations'') = Some (JArr vs) \<and>
           length (variations out) = length vs \<and>
           (\<forall>i<length vs.
              (\<not> truthy (voiceProfile inp) \<longrightarrow>
                 variations out ! i = scored (vs ! i) (fixed_score 75)) \<and>
              (truthy (voiceProfile inp) \<longrightarrow>
                 (\<exists>r. model e (length cs + 1 + i) = Replies r \<and>
                      variations out ! i = scored (vs ! i) (reply_score (parse_reply e r)))))"
proof -
  from assms obtain reply cs1 vs where
    r: "model e (length cs) = Replies reply" and
    c: "cs1 = cs @ [GenerateContent (topic inp) (contentType inp) (creativityLevel inp)
                      (voiceProfile inp) (samplePosts inp) (trends inp)]" and
    f: "field (parse_reply e reply) (lit ''variations'') = Some (JArr vs)" and
    sa: "score_all e (voiceProfile inp) vs cs1 = (Some (variations out), cs')"
    by (auto simp: generateContent_def Let_def generateJSON_def generateText_def
             split: if_splits prod.splits option.splits reply.splits json.splits)
  show ?thesis
  proof (cases "truthy (voiceProfile inp)")
    case True
    from score_all_Some [OF True sa] c r f True show ?thesis by auto
  next
    case False
    from score_all_no_profile [OF False sa] r f False show ?thesis by auto
  qed
qed

lemma sent_scored:
  "sent (scored v sc) =
     variation_sent v (sc_overall sc) (sc_structure sc) (sc_tone sc) (sc_vocabulary sc)"
  by (simp add: scored_def variation_sent_def)

text \<open>
  C1 as stated fails in each of its parts. The model is asked for three variations,
  and the route returns as many as the reply holds: to the reply \<^verbatim>\<open>{"variations":[]}\<close> it
  answers with status 200 and no variation. A score is what the model's scoring reply
  holds: with one sample post, a voice profile and one variation, the scoring reply
  \<^verbatim>\<open>{"overall":150}\<close> gives a response with status 200 whose variation has the
  \<^verbatim>\<open>voice_match_score\<close> 150 and the \<^verbatim>\<open>voice_match_breakdown\<close> \<^verbatim>\<open>{}\<close>.
\<close>

theorem generate_three_variations_counterexample:
  "fst (POST_generate (scripted parse_examples (always (Replies no_variations_text)))
          ai_request []) =
     \<lparr>status = 200,
      body = JObj [(lit ''data'',
                    JObj [(lit ''variations'', JArr []), (lit ''generationTimeMs'', JNum 1000),
                          (lit ''voiceProfileUsed'', JBool False)]),
                   (lit ''error'', JNull)]\<rparr> \<and>
   fst (POST_generate (scripted parse_examples scored_150_replies) sampled_request []) =
     \<lparr>status = 200,
      body = JObj [(lit ''data'',
                    JObj [(lit ''variations'',
                           JArr [JObj [(lit ''id'', JStr (lit ''var-1'')),
                                       (lit ''content'', JStr (lit ''One'')),
                                       (lit ''voice_match_score'', JNum 150),
                                       (lit ''voice_match_breakdown'', JObj [])]]),
                          (lit ''generationTimeMs'', JNum 2000),
                          (lit ''voiceProfileUsed'', JBool True)]),
                   (lit ''error'', JNull)]\<rparr>"
proof -
  have "fst (POST_generate (scripted parse_examples (always (Replies no_variations_text)))
          ai_request []) =
     \<lparr>status = 200,
      body = JObj [(lit ''data'',
                    JObj [(lit ''variations'', JArr []), (lit ''generationTimeMs'', JNum 1000),
                          (lit ''voiceProfileUsed'', JBool False)]),
                   (lit ''error'', JNull)]\<rparr>"
    by (simp add: POST_generate_def ai_request_def scripted_def always_def generateContent_def
          generateJSON_def generateText_def parse_reply_def parse_examples_def example_texts
          respond_def obj3 trim_def is_white_def lit_def)
  moreover have
    "scored (variation ''var-1'' ''One'') (score_from (JObj [(lit ''overall'', JNum 150)])) =
       JObj [(lit ''id'', JStr (lit ''var-1'')), (lit ''content'', JStr (lit ''One'')),
             (lit ''voice_match_score'', JNum 150), (lit ''voice_match_breakdown'', JObj [])]"
    by (simp add: scored_def score_from_def variation_def obj_def List.map_filter_def lit_def)
  ultimately show ?thesis
    by (simp add: sampled_run respond_def obj3)
qed

text \<open>
  C1, as amended. A response of POST /api/generate with status 200 carries one
  variation for each element of the \<^verbatim>\<open>variations\<close> array that the model replied to the
  generation call, in the same order, so three exactly when the model returned three.
  The generation call is the first call of the request when there are no sample posts,
  and the second, after the voice analysis, when there are. Each variation takes \<^verbatim>\<open>id\<close>
  and \<^verbatim>\<open>content\<close> from its element. When no voice profile is in use (no sample posts, or
  a voice analysis without truthy JSON), \<^verbatim>\<open>voice_match_score\<close> and the three scores of
  \<^verbatim>\<open>voice_match_breakdown\<close> are 75. With a voice profile the \<open>i\<close>-th variation is scored by
  the \<open>i\<close>-th call after the generation call: when its reply has no truthy JSON the
  four scores are 70, and otherwise they are the fields \<^verbatim>\<open>overall\<close>, \<^verbatim>\<open>structure\<close>, \<^verbatim>\<open>tone\<close>
  and \<^verbatim>\<open>vocabulary\<close> of the reply as they are, of any type and in no range; a field that
  the reply lacks is missing from the variation.
\<close>

theorem generate_success_shape:
  assumes "POST_generate e req cs = (resp, cs')" and "status resp = 200"
  shows "\<exists>vp k reply vs out t.
           (if req_samplePosts req = None \<or> req_samplePosts req = Some []
            then vp = JNull \<and> k = length cs
            else (\<exists>a. model e (length cs) = Replies a \<and> vp = parse_reply e a) \<and>
                 k = length cs + 1) \<and>
           model e k = Replies reply \<and>
           field (parse_reply e reply) (lit ''variations'') = Some (JArr vs) \<and>
           body resp =
             JObj [(lit ''data'',
                    JObj [(lit ''variations'', JArr out), (lit ''generationTimeMs'', JNum t),
                          (lit ''voiceProfileUsed'', JBool (truthy vp))]),
                   (lit ''error'', JNull)] \<and>
           length out = length vs \<and>
           (\<forall>i<length vs.
              (\<not> truthy vp \<longrightarrow>
                 out ! i = variation_sent (vs ! i) (Some (JNum 75)) (Some (JNum 75))
                             (Some (JNum 75)) (Some (JNum 75))) \<and>
              (truthy vp \<longrightarrow>
                 (\<exists>r. model e (k + 1 + i) = Replies r \<and>
                      (\<not> truthy (parse_reply e r) \<longrightarrow>
                         out ! i = variation_sent (vs ! i) (Some (JNum 70)) (Some (JNum 70))
                                     (Some (JNum 70)) (Some (JNum 70))) \<and>
                      (truthy (parse_reply e r) \<longrightarrow>
                         out ! i = variation_sent (vs ! i)
                                     (field (parse_reply e r) (lit ''overall''))
                                     (field (parse_reply e r) (lit ''structure''))
                                     (field (parse_reply e r) (lit ''tone''))
                                     (field (parse_reply e r) (lit ''vocabulary''))))))"
proof -
  let ?sp = "case req_samplePosts req of None \<Rightarrow> [] | Some ps \<Rightarrow> ps"
  obtain topic' where t: "req_topic req = Some topic'"
    and nb: "\<not> (topic' = [] \<or> length (trim topic') = 0)"
    using assms
    by (cases "req_topic req")
       (auto simp: POST_generate_def Let_def status_failure split: if_splits)
  obtain rv cs1 where av0:
    "(if length ?sp > 0 then analyzeVoice e ?sp cs else (Some JNull, cs)) = (rv, cs1)"
    by (cases "if length ?sp > 0 then analyzeVoice e ?sp cs else (Some JNull, cs)")
  have "rv \<noteq> None"
  proof
    assume "rv = None"
    with t nb av0 have "POST_generate e req cs = (failure 500 ''Failed to generate content'', cs1)"
      by (simp add: POST_generate_def Let_def)
    with assms show False by (auto simp: status_failure)
  qed
  then obtain vp where rv: "rv = Some vp" by blast
  define inp where
    "inp = \<lparr>topic = trim topic',
            contentType = (case req_contentType req of None \<Rightarrow> Long | Some c \<Rightarrow> c),
            creativityLevel = (case req_creativityLevel req of None \<Rightarrow> Num 30 | Some n \<Rightarrow> n),
            voiceProfile = vp, samplePosts = ?sp,
            trends = (case req_trends req of None \<Rightarrow> [] | Some ts \<Rightarrow> ts)\<rparr>"
  have vpi: "voiceProfile inp = vp" by (simp add: inp_def)
  obtain rg cs2 where g0: "generateContent e inp cs1 = (rg, cs2)"
    by (cases "generateContent e inp cs1")
  have post: "POST_generate e req cs =
      (case rg of
         None \<Rightarrow> (failure 500 ''Failed to generate content'', cs2)
       | Some result \<Rightarrow>
           (respond 200
              (obj [(''variations'', Some (JArr (variations result))),
                    (''generationTimeMs'', Some (JNum (generationTimeMs result))),
                    (''voiceProfileUsed'', Some (JBool (truthy vp)))])
              JNull,
            cs2))"
    using t nb av0 rv g0 [unfolded inp_def]
    by (simp add: POST_generate_def Let_def)
  have "rg \<noteq> None"
  proof
    assume "rg = None"
    with post assms show False by (auto simp: status_failure)
  qed
  then obtain out where rg: "rg = Some out" by blast
  from post rg assms(1) have cs2: "cs2 = cs'"
    and resp: "resp = respond 200
             (obj [(''variations'', Some (JArr (variations out))),
                   (''generationTimeMs'', Some (JNum (generationTimeMs out))),
                   (''voiceProfileUsed'', Some (JBool (truthy (voiceProfile inp))))]) JNull"
    by (simp_all add: vpi)
  have av: "(if length ?sp > 0 then analyzeVoice e ?sp cs else (Some JNull, cs)) =
           (Some (voiceProfile inp), cs1)"
    using av0 rv vpi by simp
  have gen: "generateContent e inp cs1 = (Some out, cs')"
    using g0 rg cs2 by simp
  define k where "k = length cs1"
  have first:
    "if req_samplePosts req = None \<or> req_samplePosts req = Some []
     then voiceProfile inp = JNull \<and> k = length cs
     else (\<exists>a. model e (length cs) = Replies a \<and> voiceProfile inp = parse_reply e a) \<and>
          k = length cs + 1"
    using av unfolding k_def
    by (auto simp: analyzeVoice_def generateJSON_def generateText_def
             split: option.splits if_splits reply.splits)
  from generateContent_Some [OF gen] obtain reply vs where
    r: "model e k = Replies reply" and
    f: "field (parse_reply e reply) (lit ''variations'') = Some (JArr vs)" and
    len: "length (variations out) = length vs" and
    each: "\<forall>i<length vs.
              (\<not> truthy (voiceProfile inp) \<longrightarrow>
                 variations out ! i = scored (vs ! i) (fixed_score 75)) \<and>
              (truthy (voiceProfile inp) \<longrightarrow>
                 (\<exists>r. model e (k + 1 + i) = Replies r \<and>
                      variations out ! i = scored (vs ! i) (reply_score (parse_reply e r))))"
    unfolding k_def by blast
  have sent_each: "\<forall>i<length vs.
              (\<not> truthy (voiceProfile inp) \<longrightarrow>
                 map sent (variations out) ! i =
                   variation_sent (vs ! i) (Some (JNum 75)) (Some (JNum 75))
                     (Some (JNum 75)) (Some (JNum 75))) \<and>
              (truthy (voiceProfile inp) \<longrightarrow>
                 (\<exists>r. model e (k + 1 + i) = Replies r \<and>
                      (\<not> truthy (parse_reply e r) \<longrightarrow>
                         map sent (variations out) ! i =
                           variation_sent (vs ! i) (Some (JNum 70)) (Some (JNum 70))
                             (Some (JNum 70)) (Some (JNum 70))) \<and>
                      (truthy (parse_reply e r) \<longrightarrow>
                         map sent (variations out) ! i =
                           variation_sent (vs ! i)
                             (field (parse_reply e r) (lit ''overall''))
                             (field (parse_reply e r) (lit ''structure''))
                             (field (parse_reply e r) (lit ''tone''))
                             (field (parse_reply e r) (lit ''vocabulary'')))))"
  proof (intro allI impI)
    fix i assume i: "i < length vs"
    then have nth: "map sent (variations out) ! i = sent (variations out ! i)"
      using len by simp
    show "(\<not> truthy (voiceProfile inp) \<longrightarrow>
                 map sent (variations out) ! i =
                   variation_sent (vs ! i) (Some (JNum 75)) (Some (JNum 75))
                     (Some (JNum 75)) (Some (JNum 75))) \<and>
              (truthy (voiceProfile inp) \<longrightarrow>
                 (\<exists>r. model e (k + 1 + i) = Replies r \<and>
                      (\<not> truthy (parse_reply e r) \<longrightarrow>
                         map sent (variations out) ! i =
                           variation_sent (vs ! i) (Some (JNum 70)) (Some (JNum 70))
                             (Some (JNum 70)) (Some (JNum 70))) \<and>
                      (truthy (parse_reply e r) \<longrightarrow>
                         map sent (variations out) ! i =
                           variation_sent (vs ! i)
                             (field (parse_reply e r) (lit ''overall''))
                             (field (parse_reply e r) (lit ''structure''))
                             (field (parse_reply e r) (lit ''tone''))
                             (field (parse_reply e r) (lit ''vocabulary'')))))"
    proof (cases "truthy (voiceProfile inp)")
      case False
      with each i have "variations out ! i = scored (vs ! i) (fixed_score 75)" by blast
      with False show ?thesis
        unfolding nth by (simp add: sent_scored fixed_score_def)
    next
      case True
      with each i obtain r where
        m: "model e (k + 1 + i) = Replies r" and
        v: "variations out ! i = scored (vs ! i) (reply_score (parse_reply e r))" by blast
      have "sent (variations out ! i) =
              (if truthy (parse_reply e r)
               then variation_sent (vs ! i)
                      (field (parse_reply e r) (lit ''overall''))
                      (field (parse_reply e r) (lit ''structure''))
                      (field (parse_reply e r) (lit ''tone''))
                      (field (parse_reply e r) (lit ''vocabulary''))
               else variation_sent (vs ! i) (Some (JNum 70)) (Some (JNum 70))
                      (Some (JNum 70)) (Some (JNum 70)))"
        unfolding v by (simp add: sent_scored reply_score_def fixed_score_def score_from_def)
      with True m show ?thesis
        unfolding nth by auto
    qed
  qed
  have body: "body resp =
             JObj [(lit ''data'',
                    JObj [(lit ''variations'', JArr (map sent (variations out))),
                          (lit ''generationTimeMs'', JNum (generationTimeMs out)),
                          (lit ''voiceProfileUsed'', JBool (truthy (voiceProfile inp)))]),
                   (lit ''error'', JNull)]"
    unfolding resp by (simp add: respond_def obj3)
  have "length (map sent (variations out)) = length vs" using len by simp
  with first r f body sent_each show ?thesis by blast
qed

text \<open>
  The hypotheses of the amended C1 at the run with one sample post, one variation and
  the scoring reply \<^verbatim>\<open>{"overall":150}\<close>: the response has status 200 and one variation,
  with the score 150 and no score in its breakdown.
\<close>

theorem generate_success_shape_witness:
  "status (fst (POST_generate (scripted parse_examples scored_150_replies)
                  sampled_request [])) = 200 \<and>
   (\<exists>out t. body (fst (POST_generate (scripted parse_examples scored_150_replies)
                        sampled_request [])) =
              JObj [(lit ''data'',
                     JObj [(lit ''variations'', JArr out), (lit ''generationTimeMs'', JNum t),
                           (lit ''voiceProfileUsed'', JBool True)]),
                    (lit ''error'', JNull)] \<and>
            length out = 1 \<and>
            out ! 0 = variation_sent (variation ''var-1'' ''One'') (Some (JNum 150))
                        None None None)"
proof -
  let ?e = "scripted parse_examples scored_150_replies"
  have st: "status (fst (POST_generate ?e sampled_request [])) = 200"
    by (simp add: sampled_run status_respond)
  from generate_success_shape [OF surjective_pairing st]
  obtain vp k reply vs out t where
    first: "if req_samplePosts sampled_request = None \<or> req_samplePosts sampled_request = Some []
            then vp = JNull \<and> k = length ([] :: call list)
            else (\<exists>a. model ?e (length ([] :: call list)) = Replies a \<and> vp = parse_reply ?e a) \<and>
                 k = length ([] :: call list) + 1" and
    r: "model ?e k = Replies reply" and
    f: "field (parse_reply ?e reply) (lit ''variations'') = Some (JArr vs)" and
    b: "body (fst (POST_generate ?e sampled_request [])) =
             JObj [(lit ''data'',
                    JObj [(lit ''variations'', JArr out), (lit ''generationTimeMs'', JNum t),
                          (lit ''voiceProfileUsed'', JBool (truthy vp))]),
                   (lit ''error'', JNull)]" and
    len: "length out = length vs" and
    each: "\<forall>i<length vs.
              (\<not> truthy vp \<longrightarrow>
                 out ! i = variation_sent (vs ! i) (Some (JNum 75)) (Some (JNum 75))
                             (Some (JNum 75)) (Some (JNum 75))) \<and>
              (truthy vp \<longrightarrow>
                 (\<exists>r. model ?e (k + 1 + i) = Replies r \<and>
                      (\<not> truthy (parse_reply ?e r) \<longrightarrow>
                         out ! i = variation_sent (vs ! i) (Some (JNum 70)) (Some (JNum 70))
                                     (Some (JNum 70)) (Some (JNum 70))) \<and>
                      (truthy (parse_reply ?e r) \<longrightarrow>
                         out ! i = variation_sent (vs ! i)
                                     (field (parse_reply ?e r) (lit ''overall''))
                                     (field (parse_reply ?e r) (lit ''structure''))
                                     (field (parse_reply ?e r) (lit ''tone''))
                                     (field (parse_reply ?e r) (lit ''vocabulary'')))))"
    by blast
  from first have vp: "vp = profile" and k: "k = Suc 0"
    by (simp_all add: sampled_request_def scripted_fields scored_150_model parse_reply_def
          parse_profile)
  from r k have "reply = one_variation_text"
    by (simp add: scripted_fields scored_150_model)
  with f have vs: "vs = [variation ''var-1'' ''One'']"
    by (simp add: parse_reply_def scripted_fields parse_one lit_def)
  from each vs vp k truthy_profile obtain r0 where
    r0: "model ?e (Suc (Suc 0)) = Replies r0" and
    o: "truthy (parse_reply ?e r0) \<longrightarrow>
          out ! 0 = variation_sent (variation ''var-1'' ''One'')
                      (field (parse_reply ?e r0) (lit ''overall''))
                      (field (parse_reply ?e r0) (lit ''structure''))
                      (field (parse_reply ?e r0) (lit ''tone''))
                      (field (parse_reply ?e r0) (lit ''vocabulary''))"
    by auto
  from r0 have "r0 = overall_150_text" by (simp add: scripted_fields scored_150_model)
  with o have "out ! 0 = variation_sent (variation ''var-1'' ''One'') (Some (JNum 150))
                           None None None"
    by (simp add: parse_reply_def scripted_fields parse_150 lit_def)
  with st b len vs vp truthy_profile show ?thesis by simp
qed

section \<open>POST /api/discover/pillars: the posts that are analysed\<close>

lemma validPosts_strings:
  "validPosts (map JStr posts) = Some (filter (\<lambda>p. 50 < length (trim p)) posts)"
  by (induction posts) auto








section \<open>generateJSON: extraction of the reply\<close>

lemma split_first_Some_iff:
  "p \<noteq> [] \<Longrightarrow>
   split_first p t = Some (a, b) \<longleftrightarrow>
     t = a @ p @ b \<and> (\<forall>i<length a. \<not> prefix p (drop i t))"
proof (induction t arbitrary: a b)
  case Nil
  then show ?case by auto
next
  case (Cons x xs)
  show ?case
  proof (cases "prefix p (x # xs)")
    case True
    then obtain r where r: "x # xs = p @ r" by (auto simp: prefix_def)
    have "(x # xs = a @ p @ b \<and> (\<forall>i<length a. \<not> prefix p (drop i (x # xs)))) \<longleftrightarrow>
          (a = [] \<and> b = r)"
    proof
      assume h: "x # xs = a @ p @ b \<and> (\<forall>i<length a. \<not> prefix p (drop i (x # xs)))"
      have "a = []"
      proof (rule ccontr)
        assume "a \<noteq> []"
        then have "0 < length a" by simp
        with h have "\<not> prefix p (drop 0 (x # xs))" by blast
        with True show False by simp
      qed
      with h r show "a = [] \<and> b = r" by simp
    next
      assume "a = [] \<and> b = r"
      with r show "x # xs = a @ p @ b \<and> (\<forall>i<length a. \<not> prefix p (drop i (x # xs)))"
        by simp
    qed
    moreover have "split_first p (x # xs) = Some ([], r)"
    proof -
      have "split_first p (x # xs) = Some ([], drop (length p) (x # xs))"
        using True by simp
      also have "drop (length p) (x # xs) = r"
        unfolding r by simp
      finally show ?thesis .
    qed
    ultimately show ?thesis by auto
  next
    case False
    have "(x # xs = a @ p @ b \<and> (\<forall>i<length a. \<not> prefix p (drop i (x # xs)))) \<longleftrightarrow>
          (\<exists>a'. a = x # a' \<and> xs = a' @ p @ b \<and> (\<forall>i<length a'. \<not> prefix p (drop i xs)))"
    proof
      assume h: "x # xs = a @ p @ b \<and> (\<forall>i<length a. \<not> prefix p (drop i (x # xs)))"
      have "a \<noteq> []"
      proof
        assume "a = []"
        with h have "prefix p (x # xs)" by (simp add: prefix_def)
        with False show False by simp
      qed
      then obtain a' where a: "a = x # a'" using h by (cases a) auto
      have "\<forall>i<length a'. \<not> prefix p (drop i xs)"
      proof (intro allI impI)
        fix i assume "i < length a'"
        then have "Suc i < length a" using a by simp
        with h have "\<not> prefix p (drop (Suc i) (x # xs))" by blast
        then show "\<not> prefix p (drop i xs)" by simp
      qed
      with h a show "\<exists>a'. a = x # a' \<and> xs = a' @ p @ b \<and> (\<forall>i<length a'. \<not> prefix p (drop i xs))"
        by simp
    next
      assume "\<exists>a'. a = x # a' \<and> xs = a' @ p @ b \<and> (\<forall>i<length a'. \<not> prefix p (drop i xs))"
      then obtain a' where a: "a = x # a'" "xs = a' @ p @ b"
        "\<forall>i<length a'. \<not> prefix p (drop i xs)" by blast
      have "\<forall>i<length a. \<not> prefix p (drop i (x # xs))"
      proof (intro allI impI)
        fix i assume i: "i < length a"
        show "\<not> prefix p (drop i (x # xs))"
        proof (cases i)
          case 0
          with False show ?thesis by simp
        next
          case (Suc j)
          with i a have "j < length a'" by simp
          with a Suc show ?thesis by simp
        qed
      qed
      with a show "x # xs = a @ p @ b \<and> (\<forall>i<length a. \<not> prefix p (drop i (x # xs)))"
        by simp
    qed
    moreover have "split_first p (x # xs) = Some (a, b) \<longleftrightarrow>
                   (\<exists>a'. a = x # a' \<and> split_first p xs = Some (a', b))"
      using False by (auto split: option.splits)
    ultimately show ?thesis using Cons.IH [OF Cons.prems] by auto
  qed
qed

lemma split_first_None_iff: "p \<noteq> [] \<Longrightarrow> split_first p t = None \<longleftrightarrow> \<not> sublist p t"
proof (induction t)
  case Nil
  then show ?case by simp
next
  case (Cons x xs)
  then show ?case by (auto simp: sublist_Cons_right)
qed

lemma fence_not_empty: "fence \<noteq> []"
  by (simp add: fence_def lit_def)

lemma length_json: "length (lit ''json'') = 4"
  by (simp add: lit_def)

lemma code_block_iff: "code_block t = Some c \<longleftrightarrow> first_fenced t c"
proof
  assume cb: "code_block t = Some c"
  then obtain before rest where s1: "split_first fence t = Some (before, rest)"
    by (auto simp: code_block_def split: option.splits)
  define tag where "tag = (if prefix (lit ''json'') rest then lit ''json'' else [])"
  define rest1 where "rest1 = (if prefix (lit ''json'') rest then drop 4 rest else rest)"
  define ws where "ws = takeWhile is_white rest1"
  define rest2 where "rest2 = dropWhile is_white rest1"
  from cb s1 obtain after where s2: "split_first fence rest2 = Some (c, after)"
    by (auto simp: code_block_def Let_def rest1_def rest2_def split: option.splits)
  have r: "rest = tag @ rest1"
    by (auto simp: tag_def rest1_def prefix_def length_json)
  have r1: "rest1 = ws @ rest2"
    by (simp add: ws_def rest2_def)
  note spec1 = split_first_Some_iff [OF fence_not_empty, THEN iffD1, OF s1]
  have t: "t = before @ fence @ rest"
    and min1: "\<forall>i<length before. \<not> prefix fence (drop i t)"
    using spec1 by blast+
  note spec2 = split_first_Some_iff [OF fence_not_empty, THEN iffD1, OF s2]
  have r2: "rest2 = c @ fence @ after"
    and min2: "\<forall>i<length c. \<not> prefix fence (drop i rest2)"
    using spec2 by blast+
  have "rest2 \<noteq> []" using r2 fence_not_empty by simp
  then have "\<not> is_white (hd rest2)"
    unfolding rest2_def by (rule hd_dropWhile)
  then have nw: "\<not> is_white (hd (c @ fence))"
    using r2 fence_not_empty by (cases c; cases fence) auto
  have tagc: "tag = lit ''json'' \<or> tag = [] \<and> \<not> prefix (lit ''json'') (ws @ c @ fence @ after)"
  proof (cases "prefix (lit ''json'') rest")
    case True
    then show ?thesis by (simp add: tag_def)
  next
    case False
    then have "tag = []" "rest1 = rest" by (simp_all add: tag_def rest1_def)
    with False r1 r2 show ?thesis by simp
  qed
  have "list_all is_white ws"
    by (simp add: ws_def list_all_iff) (metis set_takeWhileD)
  with t r r1 r2 min1 min2 nw tagc show "first_fenced t c"
    unfolding first_fenced_def by (intro exI [of _ before] exI [of _ tag] exI [of _ ws] exI [of _ after]) simp
next
  assume "first_fenced t c"
  then obtain before tag ws after where
    t: "t = before @ fence @ tag @ ws @ c @ fence @ after" and
    min1: "\<forall>i<length before. \<not> prefix fence (drop i t)" and
    tagc: "tag = lit ''json'' \<or> tag = [] \<and> \<not> prefix (lit ''json'') (ws @ c @ fence @ after)" and
    white: "list_all is_white ws" and
    nw: "\<not> is_white (hd (c @ fence))" and
    min2: "\<forall>i<length c. \<not> prefix fence (drop i (c @ fence @ after))"
    unfolding first_fenced_def by blast
  have s1: "split_first fence t = Some (before, tag @ ws @ c @ fence @ after)"
    using t min1 split_first_Some_iff [OF fence_not_empty, of t before "tag @ ws @ c @ fence @ after"]
    by blast
  have rest1: "(if prefix (lit ''json'') (tag @ ws @ c @ fence @ after)
                then drop 4 (tag @ ws @ c @ fence @ after)
                else tag @ ws @ c @ fence @ after) = ws @ c @ fence @ after"
    using tagc by (auto simp: length_json)
  have "c @ fence @ after \<noteq> []" using fence_not_empty by simp
  moreover have "hd (c @ fence @ after) = hd (c @ fence)"
    using fence_not_empty by (cases c; cases fence) auto
  ultimately have "dropWhile is_white (c @ fence @ after) = c @ fence @ after"
    using nw by (cases "c @ fence @ after") auto
  then have rest2: "dropWhile is_white (ws @ c @ fence @ after) = c @ fence @ after"
    using white by (simp add: dropWhile_append2 list_all_iff)
  have s2: "split_first fence (c @ fence @ after) = Some (c, after)"
    using min2 split_first_Some_iff [OF fence_not_empty, of "c @ fence @ after" c after]
    by blast
  show "code_block t = Some c"
    unfolding code_block_def s1 by (simp add: rest1 rest2 s2 Let_def)
qed

lemma no_fence_no_block: "\<not> sublist fence t \<Longrightarrow> \<not> first_fenced t c"
  unfolding first_fenced_def sublist_def by blast

text \<open>
  C5 as stated fails on a reply with two fenced blocks of which the second holds valid
  JSON: the reply contains a fence whose content \<^verbatim>\<open>{}\<close> is valid JSON, and \<open>generateJSON\<close>
  returns \<^verbatim>\<open>null\<close>, because it reads the first block only.
\<close>

theorem generateJSON_second_block_counterexample:
  "JSON_parse (scripted parse_examples (always Fails)) two_blocks_text = None \<and>
   two_blocks_text = lit ''```x``` '' @ fence @ lit ''json'' @ empty_object_text @ fence \<and>
   JSON_parse (scripted parse_examples (always Fails)) (trim empty_object_text) = Some (JObj []) \<and>
   parse_reply (scripted parse_examples (always Fails)) two_blocks_text = JNull"
  by (simp add: scripted_def parse_examples_def example_texts two_blocks_text_def empty_object_text_def
        no_variations_text_def three_variations_text_def relevance_60_text_def
        relevance_90_text_def parse_reply_def code_block_def fence_def trim_def is_white_def
        lit_def)

text \<open>
  C5, as amended. \<open>generateJSON\<close> issues one call of the model and does not retry. It
  returns the parsed value when the whole reply is valid JSON. Otherwise it looks at the
  first fenced block of the reply only (opened by \<^verbatim>\<open>```\<close> or \<^verbatim>\<open>```json\<close>): it returns the
  parse of its trimmed content when that is valid JSON and \<^verbatim>\<open>null\<close> when it is not. A
  reply with no fenced block gives \<^verbatim>\<open>null\<close>.
\<close>

theorem generateJSON_first_block:
  "generateJSON e call cs =
     ((case model e (length cs) of Fails \<Rightarrow> None | Replies t \<Rightarrow> Some (parse_reply e t)),
      cs @ [call]) \<and>
   (JSON_parse e t = Some v \<longrightarrow> parse_reply e t = v) \<and>
   (JSON_parse e t = None \<and> first_fenced t c \<longrightarrow>
      parse_reply e t = (case JSON_parse e (trim c) of Some v \<Rightarrow> v | None \<Rightarrow> JNull)) \<and>
   (JSON_parse e t = None \<and> (\<forall>c. \<not> first_fenced t c) \<longrightarrow> parse_reply e t = JNull) \<and>
   (JSON_parse e t = None \<and> \<not> sublist fence t \<longrightarrow> parse_reply e t = JNull)"
proof (intro conjI impI)
  show "generateJSON e call cs =
     ((case model e (length cs) of Fails \<Rightarrow> None | Replies t \<Rightarrow> Some (parse_reply e t)),
      cs @ [call])"
    by (simp add: generateJSON_def generateText_def split: reply.splits)
next
  assume "JSON_parse e t = Some v"
  then show "parse_reply e t = v" by (simp add: parse_reply_def)
next
  assume "JSON_parse e t = None \<and> first_fenced t c"
  then have "JSON_parse e t = None" "code_block t = Some c"
    by (simp_all add: code_block_iff)
  then show "parse_reply e t = (case JSON_parse e (trim c) of Some v \<Rightarrow> v | None \<Rightarrow> JNull)"
    by (simp add: parse_reply_def)
next
  assume h: "JSON_parse e t = None \<and> (\<forall>c. \<not> first_fenced t c)"
  then have "code_block t = None"
    using code_block_iff by (cases "code_block t") auto
  with h show "parse_reply e t = JNull" by (simp add: parse_reply_def)
next
  assume h: "JSON_parse e t = None \<and> \<not> sublist fence t"
  then have "code_block t = None"
    using code_block_iff no_fence_no_block by (cases "code_block t") auto
  with h show "parse_reply e t = JNull" by (simp add: parse_reply_def)
qed

text \<open>
  The hypotheses of the amended C5 at the reply \<^verbatim>\<open>```json {} ```\<close>.
\<close>

theorem generateJSON_first_block_witness:
  "JSON_parse (scripted parse_examples (always Fails)) fenced_object_text = None \<and>
   first_fenced fenced_object_text (lit ''{} '') \<and>
   parse_reply (scripted parse_examples (always Fails)) fenced_object_text = JObj []"
proof -
  have p: "JSON_parse (scripted parse_examples (always Fails)) fenced_object_text = None"
    by (simp add: scripted_def parse_examples_def example_texts fenced_object_text_def empty_object_text_def
          no_variations_text_def three_variations_text_def relevance_60_text_def
          relevance_90_text_def lit_def)
  have "code_block fenced_object_text = Some (lit ''{} '')"
    by (simp add: code_block_def fenced_object_text_def fence_def is_white_def lit_def)
  then have f: "first_fenced fenced_object_text (lit ''{} '')"
    by (simp add: code_block_iff)
  have t: "JSON_parse (scripted parse_examples (always Fails)) (trim (lit ''{} '')) = Some (JObj [])"
    by (simp add: scripted_def parse_examples_def example_texts empty_object_text_def trim_def is_white_def
          lit_def)
  from generateJSON_first_block
         [of "scripted parse_examples (always Fails)" _ _ fenced_object_text _ "lit ''{} ''"]
  show ?thesis
    using p f t by simp
qed

section \<open>Failures of the model\<close>

lemma no_json_reply_generateJSON:
  "no_json_reply e (length cs) \<Longrightarrow>
     fst (generateJSON e c cs) = None \<or> fst (generateJSON e c cs) = Some JNull"
  by (auto simp: no_json_reply_def generateJSON_def generateText_def split: reply.splits)

lemma generateContent_no_json:
  assumes "no_json_reply e (length cs)" and "generateContent e inp cs = (r, cs')"
  shows "r = None"
proof -
  obtain r0 cs1 where g: "generateJSON e
        (GenerateContent (topic inp) (contentType inp) (creativityLevel inp)
           (voiceProfile inp) (samplePosts inp) (trends inp)) cs = (r0, cs1)"
    by (cases "generateJSON e
        (GenerateContent (topic inp) (contentType inp) (creativityLevel inp)
           (voiceProfile inp) (samplePosts inp) (trends inp)) cs")
  with no_json_reply_generateJSON [OF assms(1)] have "r0 = None \<or> r0 = Some JNull"
    by (metis fst_conv)
  with g assms(2) show ?thesis
    by (auto simp: generateContent_def Let_def split: if_splits)
qed

lemma analyzeVoice_calls:
  "posts \<noteq> [] \<Longrightarrow> analyzeVoice e posts cs = (r, cs') \<Longrightarrow> length cs' = length cs + 1"
  by (auto simp: analyzeVoice_def dest: generateJSON_appends)

text \<open>
  C4 as stated fails for POST /api/generate: when the call of the model is rejected, the
  route answers 500 with the message \<^verbatim>\<open>Failed to generate content\<close>, which does not say
  \<^verbatim>\<open>please try again\<close>.
\<close>

theorem model_failure_counterexample:
  "fst (POST_generate (scripted parses_nothing (always Fails)) ai_request []) =
     \<lparr>status = 500,
      body = JObj [(lit ''data'', JNull),
                   (lit ''error'', JStr (lit ''Failed to generate content''))]\<rparr> \<and>
   \<not> sublist (lit ''try again'') (lit ''Failed to generate content'')"
  by (simp add: POST_generate_def ai_request_def scripted_def always_def generateContent_def
        generateJSON_def generateText_def failure_def respond_def trim_def is_white_def
        lit_def sublist_code)

text \<open>
  C4, as amended. When the call for pillar discovery is rejected or its reply has no
  JSON that \<open>generateJSON\<close> can return, POST /api/discover/pillars answers with status 500,
  \<^verbatim>\<open>null\<close> data and the message \<^verbatim>\<open>Failed to discover pillars. Please try again.\<close> When the
  call for content generation is rejected or its reply has no such JSON,
  POST /api/generate answers with status 500, \<^verbatim>\<open>null\<close> data and the message
  \<^verbatim>\<open>Failed to generate content\<close>, which does not say \<^verbatim>\<open>try again\<close>.
\<close>

theorem model_failure_responses:
  "(req_posts preq = Some (JArr (map JStr posts)) \<and>
    3 \<le> length (filter (\<lambda>p. 50 < length (trim p)) posts) \<and>
    no_json_reply e (length cs)
    \<longrightarrow> fst (POST_pillars e preq cs) =
          \<lparr>status = 500,
           body = JObj [(lit ''data'', JNull),
                        (lit ''error'', JStr (lit ''Failed to discover pillars. Please try again.''))]\<rparr>) \<and>
   (req_topic greq = Some t \<and> \<not> list_all is_white t \<and>
    no_json_reply e
      (length cs + (if req_samplePosts greq = None \<or> req_samplePosts greq = Some [] then 0 else 1))
    \<longrightarrow> fst (POST_generate e greq cs) =
          \<lparr>status = 500,
           body = JObj [(lit ''data'', JNull),
                        (lit ''error'', JStr (lit ''Failed to generate content''))]\<rparr>) \<and>
   sublist (lit ''Please try again'') (lit ''Failed to discover pillars. Please try again.'') \<and>
   \<not> sublist (lit ''try again'') (lit ''Failed to generate content'')"
proof (intro conjI impI)
  assume h: "req_posts preq = Some (JArr (map JStr posts)) \<and>
    3 \<le> length (filter (\<lambda>p. 50 < length (trim p)) posts) \<and> no_json_reply e (length cs)"
  let ?kept = "filter (\<lambda>p. 50 < length (trim p)) posts"
  have len: "3 \<le> length posts"
    using h length_filter_le [of "\<lambda>p. 50 < length (trim p)" posts] by linarith
  have three: "\<not> length (take 20 ?kept) < 3" using h by auto
  obtain r cs1 where d: "discoverPillars e (take 20 ?kept) cs = (r, cs1)"
    by (cases "discoverPillars e (take 20 ?kept) cs")
  have "r = None \<or> r = Some JNull"
    using d h no_json_reply_generateJSON [of e cs "DiscoverPillars (take 20 ?kept)"]
    by (auto simp: discoverPillars_def split: if_splits)
  with d h len three show "fst (POST_pillars e preq cs) =
          \<lparr>status = 500,
           body = JObj [(lit ''data'', JNull),
                        (lit ''error'', JStr (lit ''Failed to discover pillars. Please try again.''))]\<rparr>"
    by (auto simp: POST_pillars_def validPosts_strings Let_def failure_def respond_def try_again_def)
next
  assume h: "req_topic greq = Some t \<and> \<not> list_all is_white t \<and>
    no_json_reply e
      (length cs + (if req_samplePosts greq = None \<or> req_samplePosts greq = Some [] then 0 else 1))"
  then have nb: "t \<noteq> []" "trim t \<noteq> []"
    by (auto simp: trim_empty_iff list_all_iff)
  show "fst (POST_generate e greq cs) =
          \<lparr>status = 500,
           body = JObj [(lit ''data'', JNull),
                        (lit ''error'', JStr (lit ''Failed to generate content''))]\<rparr>"
  proof (cases "req_samplePosts greq = None \<or> req_samplePosts greq = Some []")
    case True
    then have sp: "(case req_samplePosts greq of None \<Rightarrow> [] | Some ps \<Rightarrow> ps) = []" by auto
    from h True have nj: "no_json_reply e (length cs)" by simp
    show ?thesis
      using h nb sp
      by (auto simp: POST_generate_def Let_def failure_def respond_def
               split: prod.splits option.splits
               dest: generateContent_no_json [OF nj])
  next
    case False
    then obtain ps where sp: "req_samplePosts greq = Some ps" "ps \<noteq> []" by auto
    from h False have nj: "no_json_reply e (length cs + 1)" by simp
    obtain r cs1 where a: "analyzeVoice e ps cs = (r, cs1)" by (cases "analyzeVoice e ps cs")
    with sp have "length cs1 = length cs + 1" using analyzeVoice_calls by blast
    with nj have nj1: "no_json_reply e (length cs1)" by simp
    show ?thesis
      using h nb sp a
      by (auto simp: POST_generate_def Let_def failure_def respond_def
               split: prod.splits option.splits
               dest: generateContent_no_json [OF nj1])
  qed
next
  show "sublist (lit ''Please try again'') (lit ''Failed to discover pillars. Please try again.'')"
    by (simp add: lit_def sublist_code)
next
  show "\<not> sublist (lit ''try again'') (lit ''Failed to generate content'')"
    by (simp add: lit_def sublist_code)
qed

text \<open>
  The hypotheses of the amended C4 at a model that rejects every call.
\<close>

theorem model_failure_responses_witness:
  "no_json_reply (scripted parses_nothing (always Fails)) 0 \<and>
   \<not> list_all is_white (lit ''AI'') \<and>
   fst (POST_pillars (scripted parses_nothing (always Fails)) posts21_request []) =
     \<lparr>status = 500,
      body = JObj [(lit ''data'', JNull),
                   (lit ''error'', JStr (lit ''Failed to discover pillars. Please try again.''))]\<rparr> \<and>
   fst (POST_generate (scripted parses_nothing (always Fails)) ai_request []) =
     \<lparr>status = 500,
      body = JObj [(lit ''data'', JNull),
                   (lit ''error'', JStr (lit ''Failed to generate content''))]\<rparr>"
proof -
  have n: "no_json_reply (scripted parses_nothing (always Fails)) 0"
    by (simp add: no_json_reply_def scripted_def always_def)
  have w: "\<not> list_all is_white (lit ''AI'')"
    by (simp add: lit_def is_white_def)
  have l: "3 \<le> length (filter (\<lambda>p. 50 < length (trim p)) posts21)"
    unfolding posts21_kept by (simp add: posts21_def)
  from model_failure_responses
         [of posts21_request posts21 "scripted parses_nothing (always Fails)" "[]"
             ai_request "lit ''AI''"]
  show ?thesis
    using n w l by (simp add: posts21_request_def ai_request_def)
qed

section \<open>scoreAndFilterTrends: the order of the result\<close>

text \<open>
  C8 at two trends that the model scores 60 and 90, with the minimum 60. The loop keeps
  both; the objects it builds carry the score as \<^verbatim>\<open>relevanceScore\<close>, as
  \<open>scoreTrendRelevance\<close> returns it, and have no \<^verbatim>\<open>relevance_score\<close>. The comparator of the
  final sort reads \<^verbatim>\<open>relevance_score\<close>, so it compares nothing and the result keeps the
  order of the input: 60 before 90.
\<close>

theorem trends_not_sorted_by_relevance:
  "fst (scoreAndFilterTrends
          (scripted parse_examples (script [Replies relevance_60_text, Replies relevance_90_text]))
          [trend_a, trend_b] [ai_pillar] (lit ''Direct'') (Num 60) []) =
     Some [scored_trend trend_a (JObj [(lit ''relevanceScore'', JNum 60)]),
           scored_trend trend_b (JObj [(lit ''relevanceScore'', JNum 90)])] \<and>
   field (scored_trend trend_a (JObj [(lit ''relevanceScore'', JNum 60)])) (lit ''relevanceScore'')
     = Some (JNum 60) \<and>
   field (scored_trend trend_b (JObj [(lit ''relevanceScore'', JNum 90)])) (lit ''relevanceScore'')
     = Some (JNum 90) \<and>
   field (scored_trend trend_a (JObj [(lit ''relevanceScore'', JNum 60)])) (lit ''relevance_score'')
     = None \<and>
   field (scored_trend trend_b (JObj [(lit ''relevanceScore'', JNum 90)])) (lit ''relevance_score'')
     = None"
  by (simp add: scoreAndFilterTrends_def scoreTrendRelevance_def generateJSON_def generateText_def
        scripted_def script_def parse_reply_def parse_examples_def example_texts relevance_60_text_def
        relevance_90_text_def empty_object_text_def no_variations_text_def
        three_variations_text_def sort_by_relevance_def sort_with_def by_relevance_score_def
        scored_trend_def assign_def set_prop_def array_index_def is_digit_def trend_props_def
        trend_a_def trend_b_def lit_def)

lemma set_insert_sorted: "set (insert_sorted cmp a bs) = insert a (set bs)"
  by (induction bs) auto

lemma length_insert_sorted: "length (insert_sorted cmp a bs) = Suc (length bs)"
  by (induction bs) auto

lemma set_sort_with: "set (sort_with cmp xs) = set xs"
  by (induction xs) (simp_all add: sort_with_def set_insert_sorted)

lemma length_sort_with: "length (sort_with cmp xs) = length xs"
  by (induction xs) (simp_all add: sort_with_def length_insert_sorted)

lemma sorted_insert_sorted:
  fixes key :: "'a \<Rightarrow> real"
  assumes "sorted_wrt (\<lambda>x y. key y \<le> key x) bs"
  shows "sorted_wrt (\<lambda>x y. key y \<le> key x) (insert_sorted (\<lambda>x y. key y - key x) a bs)"
  using assms
proof (induction bs)
  case Nil
  then show ?case by simp
next
  case (Cons b bs)
  show ?case
  proof (cases "key a < key b")
    case True
    with Cons show ?thesis
      by (auto simp: set_insert_sorted)
  next
    case False
    then have ab: "key b \<le> key a" by simp
    with Cons.prems have "\<forall>y\<in>set bs. key y \<le> key a" by auto
    with Cons.prems ab False show ?thesis by auto
  qed
qed

lemma sorted_sort_with:
  fixes key :: "'a \<Rightarrow> real"
  shows "sorted_wrt (\<lambda>x y. key y \<le> key x) (sort_with (\<lambda>x y. key y - key x) xs)"
proof (induction xs)
  case Nil
  then show ?case by (simp add: sort_with_def)
next
  case (Cons x xs)
  have "sort_with (\<lambda>x y. key y - key x) (x # xs) =
        insert_sorted (\<lambda>x y. key y - key x) x (sort_with (\<lambda>x y. key y - key x) xs)"
    by (simp add: sort_with_def)
  with Cons show ?case
    by (simp add: sorted_insert_sorted)
qed

lemma insert_sorted_cong:
  "(\<And>y. y \<in> set bs \<Longrightarrow> f a y = g a y) \<Longrightarrow> insert_sorted f a bs = insert_sorted g a bs"
  by (induction bs) auto

lemma sort_with_cong:
  "(\<And>x y. x \<in> set xs \<Longrightarrow> y \<in> set xs \<Longrightarrow> f x y = g x y) \<Longrightarrow> sort_with f xs = sort_with g xs"
proof (induction xs)
  case Nil
  then show ?case by (simp add: sort_with_def)
next
  case (Cons a xs)
  have eq: "sort_with f xs = sort_with g xs" using Cons by simp
  have "sort_with f (a # xs) = insert_sorted f a (sort_with f xs)"
    by (simp add: sort_with_def)
  also have "\<dots> = insert_sorted f a (sort_with g xs)" by (simp only: eq)
  also have "\<dots> = insert_sorted g a (sort_with g xs)"
    by (rule insert_sorted_cong) (simp add: set_sort_with Cons.prems)
  also have "\<dots> = sort_with g (a # xs)"
    by (simp add: sort_with_def)
  finally show ?case .
qed

text \<open>
  The final sort of \<open>scoreAndFilterTrends\<close> by itself does order by \<^verbatim>\<open>relevance_score\<close>:
  on objects that all hold a number under that name it returns the same objects with
  the highest number first.
\<close>

theorem sort_by_relevance_sorts:
  assumes "\<forall>x\<in>set xs. \<exists>n. field x (lit ''relevance_score'') = Some (JNum n)"
  shows "\<exists>ys. sort_by_relevance e xs = Some ys \<and> set ys = set xs \<and> length ys = length xs \<and>
           sorted_wrt (\<lambda>a b. relevance_number b \<le> relevance_number a) ys"
proof -
  have num: "\<And>x. x \<in> set xs \<Longrightarrow>
      to_number e (field x (lit ''relevance_score'')) = Some (Num (relevance_number x))"
    using assms by (auto simp: relevance_number_def)
  then have nothrow: "\<not> list_ex (\<lambda>x. to_number e (field x (lit ''relevance_score'')) = None) xs"
    by (auto simp: list_ex_iff)
  have "sort_with (by_relevance_score e) xs =
        sort_with (\<lambda>a b. relevance_number b - relevance_number a) xs"
    by (rule sort_with_cong) (simp add: by_relevance_score_def num)
  moreover have "sorted_wrt (\<lambda>a b. relevance_number b \<le> relevance_number a)
                   (sort_with (\<lambda>a b. relevance_number b - relevance_number a) xs)"
    by (rule sorted_sort_with)
  ultimately show ?thesis
    using nothrow by (simp add: sort_by_relevance_def set_sort_with length_sort_with)
qed

text \<open>Two objects with the numbers 60 and 90 come back as 90, 60.\<close>

theorem sort_by_relevance_sorts_witness:
  "field (ranked 60) (lit ''relevance_score'') = Some (JNum 60) \<and>
   field (ranked 90) (lit ''relevance_score'') = Some (JNum 90) \<and>
   sort_by_relevance (scripted parses_nothing (always Fails)) [ranked 60, ranked 90] =
     Some [ranked 90, ranked 60]"
proof -
  have h: "\<forall>x\<in>set [ranked 60, ranked 90]. \<exists>n. field x (lit ''relevance_score'') = Some (JNum n)"
    by (simp add: ranked_def)
  from sort_by_relevance_sorts [OF h, of "scripted parses_nothing (always Fails)"]
  show ?thesis
    by (simp add: ranked_def sort_by_relevance_def sort_with_def by_relevance_score_def)
qed

end
